theory Spec2Isabelle
  imports Main
begin

section \<open>Seat map plugin: the persisted records\<close>

text \<open>
  The rows the plugin reads and writes (\<^verbatim>\<open>pretix.base.models\<close>), with the columns
  that \<^verbatim>\<open>views.py\<close>, \<^verbatim>\<open>api.py\<close> and \<^verbatim>\<open>signals.py\<close> touch. Primary keys are
  natural numbers, foreign keys are the key of the row they point to (\<open>None\<close> for NULL),
  timestamps are integers.
\<close>

datatype order_status = STATUS_PENDING | STATUS_PAID | STATUS_EXPIRED | STATUS_CANCELED

record seat =
  seat_pk :: nat
  seat_event :: nat
  seat_guid :: string
  seat_name :: string
  blocked :: bool

record order_position =
  op_seat :: "nat option"
  op_order_status :: order_status

record cart_position =
  cp_pk :: nat
  cp_cart_id :: string
  cp_event :: nat
  cp_admission :: bool
  cp_seat :: "nat option"
  cp_expires :: int

record voucher =
  v_seat :: "nat option"
  valid_until :: "int option"
  redeemed :: nat
  max_usages :: nat

record database =
  seats :: "seat list"
  order_positions :: "order_position list"
  cart_positions :: "cart_position list"
  vouchers :: "voucher list"

section \<open>The taken predicate of the assignment write path\<close>

text \<open>
  \<^verbatim>\<open>CheckoutSeatSelectionView.is_seat_taken\<close> and \<^verbatim>\<open>SeatSelectionView.is_seat_taken\<close>
  (\<^verbatim>\<open>views.py\<close>, lines 167-186 and 253-276) are the same function. The three queries
  run in the order of the source and the first that finds a row answers \<open>True\<close>.
  \<^verbatim>\<open>if exclude_cart_position_id:\<close> is Python truthiness: \<open>None\<close> and \<open>0\<close> exclude nothing.
\<close>

definition voucher_live :: "int \<Rightarrow> voucher \<Rightarrow> bool" where
  "voucher_live now v =
     ((case valid_until v of None \<Rightarrow> True | Some t \<Rightarrow> now \<le> t) \<and> redeemed v < max_usages v)"

definition is_seat_taken :: "database \<Rightarrow> int \<Rightarrow> seat \<Rightarrow> nat option \<Rightarrow> bool" where
  "is_seat_taken db now s exclude_cart_position_id =
     (if list_ex (\<lambda>p. op_seat p = Some (seat_pk s) \<and>
                        op_order_status p \<in> set [STATUS_PENDING, STATUS_PAID])
           (order_positions db)
      then True
      else
        let cpq = filter (\<lambda>c. cp_seat c = Some (seat_pk s) \<and> now \<le> cp_expires c)
                    (cart_positions db);
            cpq = (case exclude_cart_position_id of
                     None \<Rightarrow> cpq
                   | Some i \<Rightarrow> if i = 0 then cpq else filter (\<lambda>c. cp_pk c \<noteq> i) cpq)
        in if cpq \<noteq> [] then True
           else if list_ex (\<lambda>v. v_seat v = Some (seat_pk s) \<and> voucher_live now v) (vouchers db)
           then True
           else False)"

subsection \<open>The hold sources, in the words of the specification\<close>

definition has_order :: "database \<Rightarrow> seat \<Rightarrow> bool" where
  "has_order db s =
     (\<exists>p \<in> set (order_positions db).
        op_seat p = Some (seat_pk s) \<and>
        (op_order_status p = STATUS_PENDING \<or> op_order_status p = STATUS_PAID))"

definition has_voucher :: "database \<Rightarrow> int \<Rightarrow> seat \<Rightarrow> bool" where
  "has_voucher db now s =
     (\<exists>v \<in> set (vouchers db).
        v_seat v = Some (seat_pk s) \<and>
        (valid_until v = None \<or> (\<exists>t. valid_until v = Some t \<and> now \<le> t)) \<and>
        redeemed v < max_usages v)"

text \<open>An unexpired cart position of a cart other than the requester's references the seat.\<close>

definition has_foreign_cart :: "database \<Rightarrow> int \<Rightarrow> seat \<Rightarrow> string \<Rightarrow> bool" where
  "has_foreign_cart db now s own_cart =
     (\<exists>c \<in> set (cart_positions db).
        cp_seat c = Some (seat_pk s) \<and> now \<le> cp_expires c \<and> cp_cart_id c \<noteq> own_cart)"

text \<open>An unexpired cart position other than the one being assigned references the seat.\<close>

definition has_other_position :: "database \<Rightarrow> int \<Rightarrow> seat \<Rightarrow> nat \<Rightarrow> bool" where
  "has_other_position db now s pos =
     (\<exists>c \<in> set (cart_positions db).
        cp_seat c = Some (seat_pk s) \<and> now \<le> cp_expires c \<and> cp_pk c \<noteq> pos)"

text \<open>The taken predicate as section 4.3 of the specification words it.\<close>

definition taken_as_specified :: "database \<Rightarrow> int \<Rightarrow> seat \<Rightarrow> string \<Rightarrow> bool" where
  "taken_as_specified db now s own_cart =
     (blocked s \<or> has_order db s \<or> has_voucher db now s \<or> has_foreign_cart db now s own_cart)"

subsection \<open>A cart that holds two seats\<close>

definition seat_S1 :: seat where
  "seat_S1 = \<lparr>seat_pk = 1, seat_event = 1, seat_guid = ''S1'', seat_name = ''Row 1, Seat 1'',
              blocked = False\<rparr>"

definition seat_S2 :: seat where
  "seat_S2 = \<lparr>seat_pk = 2, seat_event = 1, seat_guid = ''S2'', seat_name = ''Row 1, Seat 2'',
              blocked = False\<rparr>"

definition seat_S3 :: seat where
  "seat_S3 = \<lparr>seat_pk = 3, seat_event = 1, seat_guid = ''S3'', seat_name = ''Row 1, Seat 3'',
              blocked = False\<rparr>"

definition position_P1 :: cart_position where
  "position_P1 = \<lparr>cp_pk = 1, cp_cart_id = ''cart-a'', cp_event = 1, cp_admission = True,
                  cp_seat = Some 1, cp_expires = 100\<rparr>"

definition position_P2 :: cart_position where
  "position_P2 = \<lparr>cp_pk = 2, cp_cart_id = ''cart-a'', cp_event = 1, cp_admission = True,
                  cp_seat = Some 2, cp_expires = 100\<rparr>"

definition two_seat_cart :: database where
  "two_seat_cart = \<lparr>seats = [seat_S1, seat_S2, seat_S3], order_positions = [],
                    cart_positions = [position_P1, position_P2], vouchers = []\<rparr>"

section \<open>The assignment endpoints\<close>

subsection \<open>Python's \<^verbatim>\<open>str\<close> and \<^verbatim>\<open>int\<close> on primary keys\<close>

fun str_nat :: "nat \<Rightarrow> string" where
  "str_nat n =
     (if n < 10 then [''0123456789'' ! n]
      else str_nat (n div 10) @ [''0123456789'' ! (n mod 10)])"

declare str_nat.simps [simp del]

definition digit_of :: "char \<Rightarrow> nat option" where
  "digit_of c =
     map_of [(CHR ''0'', 0), (CHR ''1'', 1), (CHR ''2'', 2), (CHR ''3'', 3), (CHR ''4'', 4),
             (CHR ''5'', 5), (CHR ''6'', 6), (CHR ''7'', 7), (CHR ''8'', 8), (CHR ''9'', 9)] c"

text \<open>
  \<^verbatim>\<open>int(pos_id)\<close> on a string of ASCII digits; anything else is a \<^verbatim>\<open>ValueError\<close>
  (\<open>None\<close>). The strings that reach it are keys of \<^verbatim>\<open>position_map\<close>, so of the form
  \<^verbatim>\<open>str(p.pk)\<close>.
\<close>

definition int_str :: "string \<Rightarrow> nat option" where
  "int_str s =
     (if s = [] then None
      else fold (\<lambda>c acc. case acc of None \<Rightarrow> None
                          | Some a \<Rightarrow> (case digit_of c of None \<Rightarrow> None
                                       | Some d \<Rightarrow> Some (10 * a + d)))
             s (Some 0))"

subsection \<open>Requests, responses and exceptions\<close>

text \<open>
  The body of a POST as \<^verbatim>\<open>json.loads\<close> sees it: not JSON at all, a JSON value that is
  not an object, or an object whose \<^verbatim>\<open>seat_assignments\<close> member is absent, is not an
  object, or is the mapping \<^verbatim>\<open>{position_id: seat_guid}\<close> of strings to strings that the
  source's comment names (its items in the order of the document, keys distinct).
\<close>

datatype pytype = PyList | PyStr | PyInt | PyFloat | PyBool | PyNone

datatype assignments_member = Absent | NotDict pytype | Dict "(string \<times> string) list"

datatype request_body = Malformed | NotObject pytype | Object assignments_member

record request =
  req_body :: request_body
  req_cart_id :: string
  req_event :: nat
  req_now :: int
  req_redirect_url :: string

record response =
  http_status :: nat
  status :: string
  message :: "string option"
  redirect :: "string option"

datatype exc =
    JSONDecodeError
  | AttributeError string string
  | TypeError string
  | ValueError string
  | KeyError string
  | MultipleObjectsReturned nat

definition type_name :: "pytype \<Rightarrow> string" where
  "type_name t =
     (case t of PyList \<Rightarrow> ''list'' | PyStr \<Rightarrow> ''str'' | PyInt \<Rightarrow> ''int''
      | PyFloat \<Rightarrow> ''float'' | PyBool \<Rightarrow> ''bool'' | PyNone \<Rightarrow> ''NoneType'')"

definition quoted :: "string \<Rightarrow> string" where
  "quoted s = CHR 0x27 # s @ [CHR 0x27]"

text \<open>\<^verbatim>\<open>str(e)\<close>, the text the interpreter and the object-relational mapper give an exception.\<close>

definition str_exc :: "exc \<Rightarrow> string" where
  "str_exc e =
     (case e of
        JSONDecodeError \<Rightarrow> ''Expecting value: line 1 column 1 (char 0)''
      | AttributeError t a \<Rightarrow> quoted t @ '' object has no attribute '' @ quoted a
      | TypeError msg \<Rightarrow> msg
      | ValueError s \<Rightarrow> ''invalid literal for int() with base 10: '' @ quoted s
      | KeyError k \<Rightarrow> quoted k
      | MultipleObjectsReturned n \<Rightarrow>
          ''get() returned more than one Seat -- it returned '' @ str_nat n @ ''!'')"

definition error_response :: "nat \<Rightarrow> string \<Rightarrow> response" where
  "error_response code msg =
     \<lparr>http_status = code, status = ''error'', message = Some msg, redirect = None\<rparr>"

definition position_not_in_cart :: response where
  "position_not_in_cart = error_response 400
     (''Your shopping cart has expired or has been changed in the meantime. '' @
      ''Please go back to the cart, check your selection and try again.'')"

definition duplicate_seat_assignment :: response where
  "duplicate_seat_assignment = error_response 400
     ''The same seat cannot be assigned to multiple tickets.''"

definition seat_unavailable :: "string \<Rightarrow> response" where
  "seat_unavailable name = error_response 400 (''Seat '' @ name @ '' is no longer available.'')"

definition seat_not_found :: response where
  "seat_not_found = error_response 404 ''Invalid seat selected.''"

definition malformed_request :: response where
  "malformed_request = error_response 400 ''Invalid request.''"

definition unexpected_failure :: "exc \<Rightarrow> response" where
  "unexpected_failure e = error_response 500 (str_exc e)"

text \<open>
  The two endpoints differ in their success payload only: the checkout view adds the
  continuation target.
\<close>

datatype endpoint = CheckoutSeatSelectionView | SeatSelectionView

definition success :: "endpoint \<Rightarrow> request \<Rightarrow> response" where
  "success v req =
     (case v of
        CheckoutSeatSelectionView \<Rightarrow>
          \<lparr>http_status = 200, status = ''success'', message = None,
           redirect = Some (req_redirect_url req)\<rparr>
      | SeatSelectionView \<Rightarrow>
          \<lparr>http_status = 200, status = ''success'', message = None, redirect = None\<rparr>)"

subsection \<open>Validation\<close>

text \<open>
  Where a block of the handler ends: an exception travels to the \<^verbatim>\<open>except\<close> clauses, a
  \<^verbatim>\<open>return\<close> leaves the handler, or control falls through with a value.
\<close>

datatype 'a flow = Raised exc | Returned response | Next 'a

text \<open>
  \<^verbatim>\<open>data.get('seat_assignments', {})\<close> followed by \<^verbatim>\<open>seat_assignments.keys()\<close>: only a
  dict has either method.
\<close>

definition seat_assignments_of :: "request_body \<Rightarrow> (string \<times> string) list flow" where
  "seat_assignments_of b =
     (case b of
        Malformed \<Rightarrow> Raised JSONDecodeError
      | NotObject t \<Rightarrow> Raised (AttributeError (type_name t) ''get'')
      | Object Absent \<Rightarrow> Next []
      | Object (NotDict t) \<Rightarrow> Raised (AttributeError (type_name t) ''keys'')
      | Object (Dict items) \<Rightarrow> Next items)"

text \<open>
  \<^verbatim>\<open>CartPosition.objects.filter(cart_id=cart_id, event=event, item__admission=True)\<close>
\<close>

definition positions_of :: "request \<Rightarrow> database \<Rightarrow> cart_position list" where
  "positions_of req db =
     filter (\<lambda>p. cp_cart_id p = req_cart_id req \<and> cp_event p = req_event req \<and> cp_admission p)
       (cart_positions db)"

text \<open>\<^verbatim>\<open>{str(p.pk): p for p in positions}\<close>: a later position replaces an earlier one.\<close>

definition position_map :: "cart_position list \<Rightarrow> (string \<rightharpoonup> cart_position)" where
  "position_map ps = fold (\<lambda>p m. m(str_nat (cp_pk p) \<mapsto> p)) ps Map.empty"

text \<open>
  The third validation loop. \<^verbatim>\<open>Seat.objects.get\<close> raises \<^verbatim>\<open>DoesNotExist\<close>, caught
  inside the loop, when no seat matches and \<^verbatim>\<open>MultipleObjectsReturned\<close>, not caught
  there, when several do.
\<close>

fun resolve_seats ::
  "database \<Rightarrow> request \<Rightarrow> (string \<times> string) list \<Rightarrow> (string \<times> seat) list \<Rightarrow>
   (string \<times> seat) list flow" where
  "resolve_seats db req [] seats_to_assign = Next seats_to_assign"
| "resolve_seats db req ((pos_id, guid) # rest) seats_to_assign =
     (case filter (\<lambda>s. seat_guid s = guid \<and> seat_event s = req_event req) (seats db) of
        [] \<Rightarrow> Returned seat_not_found
      | [s] \<Rightarrow>
          (case int_str pos_id of
             None \<Rightarrow> Raised (ValueError pos_id)
           | Some i \<Rightarrow>
               if is_seat_taken db (req_now req) s (Some i)
               then Returned (seat_unavailable (seat_name s))
               else resolve_seats db req rest (seats_to_assign @ [(pos_id, s)]))
      | s # s' # others \<Rightarrow> Raised (MultipleObjectsReturned (Suc (Suc (length others)))))"

definition validate :: "request \<Rightarrow> database \<Rightarrow> (string \<times> seat) list flow" where
  "validate req db =
     (case seat_assignments_of (req_body req) of
        Raised e \<Rightarrow> Raised e
      | Returned r \<Rightarrow> Returned r
      | Next seat_assignments \<Rightarrow>
          if list_ex (\<lambda>pos_id. position_map (positions_of req db) pos_id = None)
               (map fst seat_assignments)
          then Returned position_not_in_cart
          else if length (map snd seat_assignments) \<noteq> card (set (map snd seat_assignments))
          then Returned duplicate_seat_assignment
          else resolve_seats db req seat_assignments [])"

subsection \<open>Commit\<close>

text \<open>
  \<^verbatim>\<open>CartPosition.objects.filter(pk__in=position_map.keys()).update(seat=None)\<close>: the keys
  are \<^verbatim>\<open>str(p.pk)\<close> and are cast back to integers, so a row is among them exactly when
  the \<^verbatim>\<open>str\<close> of its primary key is a key.
\<close>

definition clear_seats :: "(string \<rightharpoonup> cart_position) \<Rightarrow> database \<Rightarrow> database" where
  "clear_seats pm db =
     db\<lparr>cart_positions :=
          map (\<lambda>r. if pm (str_nat (cp_pk r)) = None then r else r\<lparr>cp_seat := None\<rparr>)
            (cart_positions db)\<rparr>"

text \<open>
  \<^verbatim>\<open>pos.save()\<close> writes every column of the object in memory to the row of its primary
  key, and inserts the row when there is none.
\<close>

definition save :: "cart_position \<Rightarrow> database \<Rightarrow> database" where
  "save pos db =
     db\<lparr>cart_positions :=
          (if list_ex (\<lambda>r. cp_pk r = cp_pk pos) (cart_positions db)
           then map (\<lambda>r. if cp_pk r = cp_pk pos then pos else r) (cart_positions db)
           else cart_positions db @ [pos])\<rparr>"

fun assign_seats ::
  "(string \<rightharpoonup> cart_position) \<Rightarrow> (string \<times> seat) list \<Rightarrow> database \<Rightarrow> exc option \<times> database" where
  "assign_seats pm [] db = (None, db)"
| "assign_seats pm ((pos_id, s) # rest) db =
     (case pm pos_id of
        None \<Rightarrow> (Some (KeyError pos_id), db)
      | Some pos \<Rightarrow> assign_seats pm rest (save (pos\<lparr>cp_seat := Some (seat_pk s)\<rparr>) db))"

definition commit :: "request \<Rightarrow> (string \<times> seat) list \<Rightarrow> database \<Rightarrow> exc option \<times> database" where
  "commit req seats_to_assign db =
     (let pm = position_map (positions_of req db)
      in assign_seats pm seats_to_assign (clear_seats pm db))"

subsection \<open>The handler\<close>

text \<open>The body of the \<^verbatim>\<open>try\<close> statement of \<^verbatim>\<open>post\<close>.\<close>

definition try_block :: "endpoint \<Rightarrow> request \<Rightarrow> database \<Rightarrow> (exc + response) \<times> database" where
  "try_block v req db =
     (case validate req db of
        Raised e \<Rightarrow> (Inl e, db)
      | Returned r \<Rightarrow> (Inr r, db)
      | Next seats_to_assign \<Rightarrow>
          (case commit req seats_to_assign db of
             (Some e, db') \<Rightarrow> (Inl e, db')
           | (None, db') \<Rightarrow> (Inr (success v req), db')))"

text \<open>
  \<^verbatim>\<open>post\<close> with its two \<^verbatim>\<open>except\<close> clauses. Both catch inside the function that
  \<^verbatim>\<open>transaction.atomic\<close> wraps, so the transaction ends normally and the writes made
  before an exception stay.
\<close>

definition post :: "endpoint \<Rightarrow> request \<Rightarrow> database \<Rightarrow> response \<times> database" where
  "post v req db =
     (case try_block v req db of
        (Inr r, db') \<Rightarrow> (r, db')
      | (Inl JSONDecodeError, db') \<Rightarrow> (malformed_request, db')
      | (Inl e, db') \<Rightarrow> (unexpected_failure e, db'))"

subsection \<open>The rejections of the validation steps\<close>

definition rejected :: "response \<Rightarrow> bool" where
  "rejected r =
     (r = position_not_in_cart \<or> r = duplicate_seat_assignment \<or> r = seat_not_found \<or>
      (\<exists>name. r = seat_unavailable name))"

subsection \<open>Requests of the cart that holds two seats\<close>

text \<open>Scenario B of the specification: both positions ask for seat S1.\<close>

definition scenario_B :: request where
  "scenario_B = \<lparr>req_body = Object (Dict [(''1'', ''S1''), (''2'', ''S1'')]),
                 req_cart_id = ''cart-a'', req_event = 1, req_now = 50,
                 req_redirect_url = ''/checkout/start/''\<rparr>"

definition empty_batch :: request where
  "empty_batch = \<lparr>req_body = Object (Dict []),
                  req_cart_id = ''cart-a'', req_event = 1, req_now = 50,
                  req_redirect_url = ''/checkout/start/''\<rparr>"

text \<open>A body that is the JSON list \<^verbatim>\<open>[]\<close>, and one whose member is \<^verbatim>\<open>null\<close>.\<close>

definition list_body :: request where
  "list_body = \<lparr>req_body = NotObject PyList,
                req_cart_id = ''cart-a'', req_event = 1, req_now = 50,
                req_redirect_url = ''/checkout/start/''\<rparr>"

definition null_member :: request where
  "null_member = \<lparr>req_body = Object (NotDict PyNone),
                  req_cart_id = ''cart-a'', req_event = 1, req_now = 50,
                  req_redirect_url = ''/checkout/start/''\<rparr>"

text \<open>The two positions swap their seats.\<close>

definition swap_seats :: request where
  "swap_seats = \<lparr>req_body = Object (Dict [(''1'', ''S2''), (''2'', ''S1'')]),
                 req_cart_id = ''cart-a'', req_event = 1, req_now = 50,
                 req_redirect_url = ''/checkout/start/''\<rparr>"

text \<open>The same hall with a fourth seat, blocked and held by nobody; position 1 asks for it.\<close>

definition seat_S4 :: seat where
  "seat_S4 = \<lparr>seat_pk = 4, seat_event = 1, seat_guid = ''S4'', seat_name = ''Row 1, Seat 4'',
              blocked = True\<rparr>"

definition hall_with_blocked_seat :: database where
  "hall_with_blocked_seat =
     \<lparr>seats = [seat_S1, seat_S2, seat_S3, seat_S4], order_positions = [],
      cart_positions = [position_P1, position_P2], vouchers = []\<rparr>"

definition take_blocked :: request where
  "take_blocked = \<lparr>req_body = Object (Dict [(''1'', ''S4'')]),
                   req_cart_id = ''cart-a'', req_event = 1, req_now = 50,
                   req_redirect_url = ''/checkout/start/''\<rparr>"

subsection \<open>What a committed batch leaves behind\<close>

text \<open>
  The admission positions of the caller's cart for the event: the rows that
  \<open>positions_of\<close> selects.
\<close>

definition in_cart :: "request \<Rightarrow> cart_position \<Rightarrow> bool" where
  "in_cart req p = (cp_cart_id p = req_cart_id req \<and> cp_event p = req_event req \<and> cp_admission p)"

definition seats_with_guid :: "database \<Rightarrow> request \<Rightarrow> string \<Rightarrow> seat list" where
  "seats_with_guid db req guid =
     filter (\<lambda>s. seat_guid s = guid \<and> seat_event s = req_event req) (seats db)"

text \<open>
  The seat link that the batch \<open>sa\<close> asks for the position with primary key \<open>pk\<close>: none
  when the position is not in the batch, else the seat of the event with the submitted guid.
\<close>

definition seat_link :: "database \<Rightarrow> request \<Rightarrow> (string \<times> string) list \<Rightarrow> nat \<Rightarrow> nat option" where
  "seat_link db req sa pk =
     (case map_of sa (str_nat pk) of
        None \<Rightarrow> None
      | Some guid \<Rightarrow> (case seats_with_guid db req guid of [s] \<Rightarrow> Some (seat_pk s) | _ \<Rightarrow> None))"

text \<open>What the loop of \<open>assign_seats\<close> does to one row of the table.\<close>

fun write_row ::
  "(string \<rightharpoonup> cart_position) \<Rightarrow> (string \<times> seat) list \<Rightarrow> cart_position \<Rightarrow> cart_position" where
  "write_row pm [] r = r"
| "write_row pm ((k, s) # rest) r =
     write_row pm rest
       (case pm k of None \<Rightarrow> r
        | Some p \<Rightarrow> if cp_pk r = cp_pk p then p\<lparr>cp_seat := Some (seat_pk s)\<rparr> else r)"

text \<open>Position 1 moves to the free seat S3; position 2 is not part of the batch.\<close>

definition move_P1 :: request where
  "move_P1 = \<lparr>req_body = Object (Dict [(''1'', ''S3'')]),
              req_cart_id = ''cart-a'', req_event = 1, req_now = 50,
              req_redirect_url = ''/checkout/start/''\<rparr>"

section \<open>Category mappings\<close>

text \<open>
  A row of \<^verbatim>\<open>SeatCategoryMapping\<close>: a layout category of an event, for one subevent or
  (\<open>None\<close>) for all of them, and the product it is sold as.
\<close>

record seat_category_mapping =
  m_event :: nat
  m_layout_category :: string
  m_subevent :: "nat option"
  m_product :: nat

text \<open>
  \<^verbatim>\<open>.order_by('subevent_id').reverse()\<close>, that is \<^verbatim>\<open>ORDER BY subevent_id DESC\<close>, on
  PostgreSQL, the database the source's comment names: the rows with NULL come first,
  the others follow by descending subevent.
\<close>

definition order_by_subevent_reversed ::
  "seat_category_mapping list \<Rightarrow> seat_category_mapping list" where
  "order_by_subevent_reversed q =
     filter (\<lambda>m. m_subevent m = None) q @
     rev (sort_key (\<lambda>m. case m_subevent m of None \<Rightarrow> 0 | Some s \<Rightarrow> s)
            (filter (\<lambda>m. m_subevent m \<noteq> None) q))"

text \<open>\<^verbatim>\<open>SeatmapDataAPIView.get\<close>, \<^verbatim>\<open>api.py\<close> lines 44-58: a later row replaces an earlier one.\<close>

definition api_category_mappings ::
  "seat_category_mapping list \<Rightarrow> nat \<Rightarrow> nat option \<Rightarrow> (string \<rightharpoonup> nat)" where
  "api_category_mappings table event subevent =
     (let q_mappings = filter (\<lambda>m. m_event m = event) table;
          q_mappings =
            (case subevent of
               Some s \<Rightarrow>
                 order_by_subevent_reversed
                   (filter (\<lambda>m. m_subevent m = Some s \<or> m_subevent m = None) q_mappings)
             | None \<Rightarrow> filter (\<lambda>m. m_subevent m = None) q_mappings)
      in fold (\<lambda>m d. d(m_layout_category m \<mapsto> m_product m)) q_mappings Map.empty)"

text \<open>
  \<^verbatim>\<open>CheckoutSeatSelectionView.get_context_data\<close>, \<^verbatim>\<open>views.py\<close> lines 84-87: every
  mapping of the event, in the order the table gives them.
\<close>

definition checkout_product_mappings ::
  "seat_category_mapping list \<Rightarrow> nat \<Rightarrow> (string \<rightharpoonup> nat)" where
  "checkout_product_mappings table event =
     fold (\<lambda>m d. d(m_layout_category m \<mapsto> m_product m))
       (filter (\<lambda>m. m_event m = event) table) Map.empty"

text \<open>The resolution of section 4.2 of the specification, as a relation.\<close>

definition general_mapping :: "seat_category_mapping list \<Rightarrow> nat \<Rightarrow> string \<Rightarrow> nat \<Rightarrow> bool" where
  "general_mapping table event c p =
     (\<exists>m \<in> set table. m_event m = event \<and> m_layout_category m = c \<and> m_subevent m = None \<and>
        m_product m = p)"

definition specific_mapping ::
  "seat_category_mapping list \<Rightarrow> nat \<Rightarrow> nat \<Rightarrow> string \<Rightarrow> nat \<Rightarrow> bool" where
  "specific_mapping table event s c p =
     (\<exists>m \<in> set table. m_event m = event \<and> m_layout_category m = c \<and> m_subevent m = Some s \<and>
        m_product m = p)"

definition resolves_to ::
  "seat_category_mapping list \<Rightarrow> nat \<Rightarrow> nat option \<Rightarrow> string \<Rightarrow> nat \<Rightarrow> bool" where
  "resolves_to table event subevent c p =
     (case subevent of
        None \<Rightarrow> general_mapping table event c p
      | Some s \<Rightarrow>
          specific_mapping table event s c p \<or>
          ((\<nexists>p'. specific_mapping table event s c p') \<and> general_mapping table event c p))"

text \<open>
  The mappings of scenario A of the specification (products A, B, C are 1, 2, 3), and a
  table with one mapping, specific to subevent 5.
\<close>

definition scenario_A_mappings :: "seat_category_mapping list" where
  "scenario_A_mappings =
     [\<lparr>m_event = 1, m_layout_category = ''VIP'', m_subevent = None, m_product = 1\<rparr>,
      \<lparr>m_event = 1, m_layout_category = ''Standard'', m_subevent = None, m_product = 2\<rparr>,
      \<lparr>m_event = 1, m_layout_category = ''Standard'', m_subevent = Some 5, m_product = 3\<rparr>]"

definition specific_only :: "seat_category_mapping list" where
  "specific_only =
     [\<lparr>m_event = 1, m_layout_category = ''Standard'', m_subevent = Some 5, m_product = 3\<rparr>]"

section \<open>Layouts\<close>

subsection \<open>JSON values and the Python operations on them\<close>

text \<open>
  What \<^verbatim>\<open>json.loads\<close> returns: \<^verbatim>\<open>None\<close>, a bool, an int (floats are left out), a
  str, a list, or a dict with its items in order.
\<close>

datatype json =
    JNull
  | JBool bool
  | JNum int
  | JStr string
  | JArr "json list"
  | JObj "(string \<times> json) list"

text \<open>The truth value Python gives a value in \<^verbatim>\<open>if x:\<close>.\<close>

definition truthy :: "json \<Rightarrow> bool" where
  "truthy j =
     (case j of JNull \<Rightarrow> False | JBool b \<Rightarrow> b | JNum n \<Rightarrow> n \<noteq> 0 | JStr s \<Rightarrow> s \<noteq> []
      | JArr xs \<Rightarrow> xs \<noteq> [] | JObj kvs \<Rightarrow> kvs \<noteq> [])"

definition json_type :: "json \<Rightarrow> string" where
  "json_type j =
     (case j of JNull \<Rightarrow> ''NoneType'' | JBool b \<Rightarrow> ''bool'' | JNum n \<Rightarrow> ''int''
      | JStr s \<Rightarrow> ''str'' | JArr xs \<Rightarrow> ''list'' | JObj kvs \<Rightarrow> ''dict'')"

text \<open>
  \<^verbatim>\<open>k in x\<close> is a key test on a dict, a membership test on a list, a substring test on a
  str, and a \<^verbatim>\<open>TypeError\<close> on anything else. Only a dict has \<^verbatim>\<open>get\<close>. A \<^verbatim>\<open>for\<close> loop
  runs over the elements of a list, the keys of a dict, the characters of a str.
\<close>

fun substring :: "string \<Rightarrow> string \<Rightarrow> bool" where
  "substring k [] = (k = [])"
| "substring k (c # cs) = (take (length k) (c # cs) = k \<or> substring k cs)"

definition py_in :: "string \<Rightarrow> json \<Rightarrow> exc + bool" where
  "py_in k j =
     (case j of
        JObj kvs \<Rightarrow> Inr (k \<in> set (map fst kvs))
      | JArr xs \<Rightarrow> Inr (JStr k \<in> set xs)
      | JStr s \<Rightarrow> Inr (substring k s)
      | _ \<Rightarrow> Inl (TypeError (''argument of type '' @ quoted (json_type j) @ '' is not iterable'')))"

definition py_get :: "json \<Rightarrow> string \<Rightarrow> json \<Rightarrow> exc + json" where
  "py_get j k dflt =
     (case j of
        JObj kvs \<Rightarrow> Inr (case map_of kvs k of None \<Rightarrow> dflt | Some v \<Rightarrow> v)
      | _ \<Rightarrow> Inl (AttributeError (json_type j) ''get''))"

definition py_iter :: "json \<Rightarrow> exc + json list" where
  "py_iter j =
     (case j of
        JArr xs \<Rightarrow> Inr xs
      | JObj kvs \<Rightarrow> Inr (map (\<lambda>kv. JStr (fst kv)) kvs)
      | JStr s \<Rightarrow> Inr (map (\<lambda>c. JStr [c]) s)
      | _ \<Rightarrow> Inl (TypeError (quoted (json_type j) @ '' object is not iterable'')))"

text \<open>
  \<^verbatim>\<open>d[k] = v\<close>: a list or a dict is not hashable. Keys are compared structurally (Python
  also takes \<^verbatim>\<open>True\<close> for \<^verbatim>\<open>1\<close>; a lookup by a seat's guid, a string, cannot tell).
\<close>

definition store :: "json \<Rightarrow> json \<Rightarrow> (json \<rightharpoonup> json) \<Rightarrow> exc + (json \<rightharpoonup> json)" where
  "store k v d =
     (case k of
        JArr xs \<Rightarrow> Inl (TypeError (''unhashable type: '' @ quoted ''list''))
      | JObj kvs \<Rightarrow> Inl (TypeError (''unhashable type: '' @ quoted ''dict''))
      | _ \<Rightarrow> Inr (d(k \<mapsto> v)))"

text \<open>An exception ends the computation; a loop stops at the first one.\<close>

definition and_then :: "exc + 'a \<Rightarrow> ('a \<Rightarrow> exc + 'b) \<Rightarrow> exc + 'b" where
  "and_then m f = (case m of Inl e \<Rightarrow> Inl e | Inr x \<Rightarrow> f x)"

fun for_each :: "('a \<Rightarrow> 's \<Rightarrow> exc + 's) \<Rightarrow> 'a list \<Rightarrow> 's \<Rightarrow> exc + 's" where
  "for_each body [] s = Inr s"
| "for_each body (x # xs) s =
     (case body x s of Inl e \<Rightarrow> Inl e | Inr s' \<Rightarrow> for_each body xs s')"

subsection \<open>The data endpoint: \<^verbatim>\<open>find_seat_categories\<close>\<close>

text \<open>
  \<^verbatim>\<open>api.py\<close>, lines 64-88, from the innermost loop outwards. The dictionary
  \<^verbatim>\<open>seat_guid_to_layout_category\<close> that the function fills is passed in and returned.
\<close>

definition api_zone_seat :: "json \<Rightarrow> json \<Rightarrow> (json \<rightharpoonup> json) \<Rightarrow> exc + (json \<rightharpoonup> json)" where
  "api_zone_seat row_category seat d =
     and_then (py_get seat ''seat_guid'' JNull) (\<lambda>seat_guid.
       if \<not> truthy seat_guid then Inr d
       else and_then (py_get seat ''category'' JNull) (\<lambda>seat_category.
         if truthy seat_category then store seat_guid seat_category d
         else if truthy row_category then store seat_guid row_category d
         else Inr d))"

definition api_row :: "json \<Rightarrow> (json \<rightharpoonup> json) \<Rightarrow> exc + (json \<rightharpoonup> json)" where
  "api_row row d =
     and_then (py_get row ''category'' JNull) (\<lambda>row_category.
     and_then (py_in ''seats'' row) (\<lambda>has_seats.
       if has_seats
       then and_then (py_get row ''seats'' (JArr [])) (\<lambda>seats.
            and_then (py_iter seats) (\<lambda>seats. for_each (api_zone_seat row_category) seats d))
       else Inr d))"

definition api_zone :: "json \<Rightarrow> (json \<rightharpoonup> json) \<Rightarrow> exc + (json \<rightharpoonup> json)" where
  "api_zone zone d =
     and_then (py_in ''rows'' zone) (\<lambda>has_rows.
       if has_rows
       then and_then (py_get zone ''rows'' (JArr [])) (\<lambda>rows.
            and_then (py_iter rows) (\<lambda>rows. for_each api_row rows d))
       else Inr d)"

definition api_flat_seat :: "json \<Rightarrow> (json \<rightharpoonup> json) \<Rightarrow> exc + (json \<rightharpoonup> json)" where
  "api_flat_seat seat d =
     and_then (py_get seat ''seat_guid'' JNull) (\<lambda>seat_guid.
     and_then (py_get seat ''category'' JNull) (\<lambda>seat_category.
       if truthy seat_guid \<and> truthy seat_category then store seat_guid seat_category d
       else Inr d))"

definition find_seat_categories :: "json \<Rightarrow> (json \<rightharpoonup> json) \<Rightarrow> exc + (json \<rightharpoonup> json)" where
  "find_seat_categories layout_data d =
     and_then (py_in ''zones'' layout_data) (\<lambda>has_zones.
       if has_zones
       then and_then (py_get layout_data ''zones'' (JArr [])) (\<lambda>zones.
            and_then (py_iter zones) (\<lambda>zones. for_each api_zone zones d))
       else and_then (py_in ''seats'' layout_data) (\<lambda>has_seats.
         if has_seats
         then and_then (py_get layout_data ''seats'' (JArr [])) (\<lambda>seats.
              and_then (py_iter seats) (\<lambda>seats. for_each api_flat_seat seats d))
         else Inr d))"

subsection \<open>The checkout view: \<^verbatim>\<open>guid_to_category_name\<close>\<close>

text \<open>
  \<^verbatim>\<open>views.py\<close>, lines 90-95: one dictionary comprehension over
  \<^verbatim>\<open>zones[].rows[].seats[]\<close>, with \<^verbatim>\<open>seat_plan.get('seat_guid')\<close> as key and
  \<^verbatim>\<open>seat_plan.get('category')\<close> as value.
\<close>

definition checkout_seat :: "json \<Rightarrow> (json \<rightharpoonup> json) \<Rightarrow> exc + (json \<rightharpoonup> json)" where
  "checkout_seat seat_plan d =
     and_then (py_get seat_plan ''seat_guid'' JNull) (\<lambda>seat_guid.
     and_then (py_get seat_plan ''category'' JNull) (\<lambda>category.
       store seat_guid category d))"

definition checkout_row :: "json \<Rightarrow> (json \<rightharpoonup> json) \<Rightarrow> exc + (json \<rightharpoonup> json)" where
  "checkout_row row d =
     and_then (py_get row ''seats'' (JArr [])) (\<lambda>seats.
     and_then (py_iter seats) (\<lambda>seats. for_each checkout_seat seats d))"

definition checkout_zone :: "json \<Rightarrow> (json \<rightharpoonup> json) \<Rightarrow> exc + (json \<rightharpoonup> json)" where
  "checkout_zone zone d =
     and_then (py_get zone ''rows'' (JArr [])) (\<lambda>rows.
     and_then (py_iter rows) (\<lambda>rows. for_each checkout_row rows d))"

definition guid_to_category_name :: "json \<Rightarrow> exc + (json \<rightharpoonup> json)" where
  "guid_to_category_name layout_data =
     and_then (py_get layout_data ''zones'' (JArr [])) (\<lambda>zones.
     and_then (py_iter zones) (\<lambda>zones. for_each checkout_zone zones Map.empty))"

text \<open>\<^verbatim>\<open>d.get(seat.seat_guid)\<close> on the dictionary either path built: \<^verbatim>\<open>None\<close> when absent.\<close>

definition category_of :: "exc + (json \<rightharpoonup> json) \<Rightarrow> string \<Rightarrow> exc + json" where
  "category_of r guid =
     (case r of Inl e \<Rightarrow> Inl e
      | Inr d \<Rightarrow> Inr (case d (JStr guid) of None \<Rightarrow> JNull | Some c \<Rightarrow> c))"

subsection \<open>Parsing the raw layout\<close>

text \<open>
  \<^verbatim>\<open>json.loads\<close> is a parameter: \<open>loads s = None\<close> when it raises \<^verbatim>\<open>JSONDecodeError\<close>.

  The checkout view (\<^verbatim>\<open>views.py\<close>, lines 63-76) starts from \<^verbatim>\<open>{}\<close>, parses only a
  non-empty layout, parses a second time when the first result is a string, and falls
  back to \<^verbatim>\<open>{}\<close> on a decoding error or on anything that is not a dict.
\<close>

definition checkout_layout_data :: "(string \<Rightarrow> json option) \<Rightarrow> string \<Rightarrow> json" where
  "checkout_layout_data loads raw =
     (if raw = [] then JObj []
      else case loads raw of
             None \<Rightarrow> JObj []
           | Some (JStr s) \<Rightarrow>
               (case loads s of
                  None \<Rightarrow> JObj []
                | Some (JObj kvs) \<Rightarrow> JObj kvs
                | Some _ \<Rightarrow> JObj [])
           | Some (JObj kvs) \<Rightarrow> JObj kvs
           | Some _ \<Rightarrow> JObj [])"

text \<open>
  The data endpoint (\<^verbatim>\<open>api.py\<close>, line 61) parses \<^verbatim>\<open>layout or '{}'\<close> outside any
  \<^verbatim>\<open>try\<close>, then runs \<^verbatim>\<open>find_seat_categories\<close> on the result.
\<close>

definition api_seating_plan_data :: "(string \<Rightarrow> json option) \<Rightarrow> string \<Rightarrow> exc + json" where
  "api_seating_plan_data loads raw =
     (case loads (if raw = [] then ''{}'' else raw) of
        None \<Rightarrow> Inl JSONDecodeError
      | Some v \<Rightarrow> Inr v)"

definition api_layout ::
  "(string \<Rightarrow> json option) \<Rightarrow> string \<Rightarrow> exc + json \<times> (json \<rightharpoonup> json)" where
  "api_layout loads raw =
     and_then (api_seating_plan_data loads raw) (\<lambda>seating_plan_data.
     and_then (find_seat_categories seating_plan_data Map.empty) (\<lambda>d.
       Inr (seating_plan_data, d)))"

subsection \<open>Two layouts\<close>

text \<open>
  The layout of scenario A of the specification (seat S1 has its own category, seat S2
  only its row's), and a legacy flat layout.
\<close>

definition scenario_A_layout :: json where
  "scenario_A_layout =
     JObj [(''zones'', JArr [JObj [(''name'', JStr ''A''), (''rows'', JArr [
       JObj [(''row_number'', JStr ''1''), (''category'', JStr ''Standard''), (''seats'', JArr [
         JObj [(''seat_guid'', JStr ''S1''), (''category'', JStr ''VIP'')],
         JObj [(''seat_guid'', JStr ''S2'')]])]])]])]"

definition flat_layout :: json where
  "flat_layout =
     JObj [(''seats'', JArr [JObj [(''seat_guid'', JStr ''S9''), (''category'', JStr ''VIP'')]])]"

subsection \<open>Layouts in the two documented forms\<close>

text \<open>
  A seat is its guid and its own category, if any; a row is its category, if any, and its
  seats; a zone is its rows. \<open>encode_zones\<close> and \<open>encode_flat\<close> are their JSON documents.
\<close>

type_synonym seat_node = "string \<times> string option"
type_synonym layout_row = "string option \<times> seat_node list"

definition opt_member :: "string \<Rightarrow> string option \<Rightarrow> (string \<times> json) list" where
  "opt_member k v = (case v of None \<Rightarrow> [] | Some s \<Rightarrow> [(k, JStr s)])"

definition encode_seat :: "seat_node \<Rightarrow> json" where
  "encode_seat seat = JObj ((''seat_guid'', JStr (fst seat)) # opt_member ''category'' (snd seat))"

definition encode_row :: "layout_row \<Rightarrow> json" where
  "encode_row row =
     JObj (opt_member ''category'' (fst row) @ [(''seats'', JArr (map encode_seat (snd row)))])"

definition encode_zone :: "layout_row list \<Rightarrow> json" where
  "encode_zone rows = JObj [(''rows'', JArr (map encode_row rows))]"

definition encode_zones :: "layout_row list list \<Rightarrow> json" where
  "encode_zones zones = JObj [(''zones'', JArr (map encode_zone zones))]"

definition encode_flat :: "seat_node list \<Rightarrow> json" where
  "encode_flat nodes = JObj [(''seats'', JArr (map encode_seat nodes))]"

text \<open>
  Section 4.1 of the specification: a seat's effective category is its own if present,
  else its row's, else absent, and the map has an entry for each seat that resolved one.
  Present means given and not empty; a seat needs a guid that is not empty.
\<close>

definition present :: "string option \<Rightarrow> bool" where
  "present c = (case c of None \<Rightarrow> False | Some s \<Rightarrow> s \<noteq> [])"

definition effective_category :: "string option \<Rightarrow> seat_node \<Rightarrow> string option" where
  "effective_category row_category seat =
     (if present (snd seat) then snd seat
      else if present row_category then row_category
      else None)"

definition enter :: "string \<Rightarrow> string option \<Rightarrow> (json \<rightharpoonup> json) \<Rightarrow> (json \<rightharpoonup> json)" where
  "enter guid category d =
     (case category of
        None \<Rightarrow> d
      | Some c \<Rightarrow> if guid = [] then d else d(JStr guid \<mapsto> JStr c))"

definition specified_zone_categories :: "layout_row list list \<Rightarrow> (json \<rightharpoonup> json)" where
  "specified_zone_categories zones =
     fold (\<lambda>zone. fold (\<lambda>row. fold (\<lambda>seat. enter (fst seat) (effective_category (fst row) seat))
                                 (snd row)) zone)
       zones Map.empty"

definition specified_flat_categories :: "seat_node list \<Rightarrow> (json \<rightharpoonup> json)" where
  "specified_flat_categories nodes =
     fold (\<lambda>seat. enter (fst seat) (if present (snd seat) then snd seat else None))
       nodes Map.empty"

section \<open>Seat status\<close>

text \<open>
  A seat as \<^verbatim>\<open>Seat.annotated\<close> returns it to the read paths: its guid, the product bound
  to it directly, if any, the three annotations \<^verbatim>\<open>has_order\<close>, \<^verbatim>\<open>has_cart\<close>,
  \<^verbatim>\<open>has_voucher\<close>, and the blocked flag. An item is a product with the answer of its
  \<^verbatim>\<open>is_available()\<close>; a subevent is its \<^verbatim>\<open>item_overrides\<close>, with the answer of each
  override's \<^verbatim>\<open>is_available()\<close>.
\<close>

record annotated_seat =
  a_guid :: string
  a_product :: "nat option"
  a_has_order :: bool
  a_has_cart :: bool
  a_has_voucher :: bool
  a_blocked :: bool

record item =
  item_pk :: nat
  item_is_available :: bool

text \<open>
  \<^verbatim>\<open>SeatmapDataAPIView.get\<close>, \<^verbatim>\<open>api.py\<close> lines 91-116, for one seat whose layout
  category, if it has one, is a string.
\<close>

definition api_status ::
  "(nat \<rightharpoonup> item) \<Rightarrow> (nat \<rightharpoonup> bool) option \<Rightarrow> (string \<rightharpoonup> nat) \<Rightarrow> string list \<Rightarrow>
   string option \<Rightarrow> annotated_seat \<Rightarrow> string" where
  "api_status products_by_id subevent category_mappings cart_seats layout_category_name seat =
     (let product_id =
            (case a_product seat of
               Some pid \<Rightarrow> Some pid
             | None \<Rightarrow>
                 (case layout_category_name of
                    None \<Rightarrow> None
                  | Some c \<Rightarrow> if c \<noteq> [] then category_mappings c else None));
          product = (case product_id of None \<Rightarrow> None | Some pid \<Rightarrow> products_by_id pid);
          is_available = (case product of None \<Rightarrow> False | Some p \<Rightarrow> item_is_available p);
          is_available =
            (case (product, subevent) of
               (Some p, Some item_overrides) \<Rightarrow>
                 if is_available
                 then (case item_overrides (item_pk p) of
                         Some False \<Rightarrow> False
                       | _ \<Rightarrow> is_available)
                 else is_available
             | _ \<Rightarrow> is_available)
      in if \<not> is_available then ''unavailable''
         else if a_guid seat \<in> set cart_seats then ''selected''
         else if a_has_order seat \<or> (a_has_cart seat \<and> a_guid seat \<notin> set cart_seats) \<or>
                 a_has_voucher seat
         then ''unavailable''
         else ''available'')"

text \<open>\<^verbatim>\<open>SeatSelectionStep.get_context_data\<close>, \<^verbatim>\<open>signals.py\<close> lines 120-122.\<close>

definition checkout_step_status :: "string list \<Rightarrow> annotated_seat \<Rightarrow> string" where
  "checkout_step_status cart_seats seat =
     (if a_has_order seat \<or> (a_has_cart seat \<and> a_guid seat \<notin> set cart_seats) \<or>
         a_has_voucher seat
      then ''unavailable''
      else ''available'')"

text \<open>\<^verbatim>\<open>CheckoutSeatSelectionView.get_context_data\<close>, \<^verbatim>\<open>views.py\<close> lines 102-112.\<close>

definition checkout_view_status ::
  "(string \<rightharpoonup> nat) \<Rightarrow> string list \<Rightarrow> string option \<Rightarrow> annotated_seat \<Rightarrow> string" where
  "checkout_view_status product_mappings cart_seats category_name seat =
     (let product = (case category_name of None \<Rightarrow> None | Some c \<Rightarrow> product_mappings c);
          is_unavailable =
            (a_has_order seat \<or> (a_has_cart seat \<and> a_guid seat \<notin> set cart_seats) \<or>
             a_has_voucher seat \<or> a_blocked seat \<or> product = None)
      in if is_unavailable then ''unavailable'' else ''available'')"

text \<open>
  Sections 4.3 and 4.4 of the specification: the product of a seat (the one bound to it,
  else the one its category maps to), whether that product is available, and the
  decision order of the status.
\<close>

definition resolved_product ::
  "(nat \<rightharpoonup> item) \<Rightarrow> (string \<rightharpoonup> nat) \<Rightarrow> string option \<Rightarrow> annotated_seat \<Rightarrow> item option" where
  "resolved_product products_by_id category_mappings layout_category_name seat =
     (case a_product seat of
        Some pid \<Rightarrow> products_by_id pid
      | None \<Rightarrow>
          (case layout_category_name of
             None \<Rightarrow> None
           | Some c \<Rightarrow>
               (case category_mappings c of
                  None \<Rightarrow> None
                | Some pid \<Rightarrow> if c = [] then None else products_by_id pid)))"

definition is_available_product ::
  "(nat \<rightharpoonup> item) \<Rightarrow> (nat \<rightharpoonup> bool) option \<Rightarrow> (string \<rightharpoonup> nat) \<Rightarrow> string option \<Rightarrow>
   annotated_seat \<Rightarrow> bool" where
  "is_available_product products_by_id subevent category_mappings layout_category_name seat =
     (case resolved_product products_by_id category_mappings layout_category_name seat of
        None \<Rightarrow> False
      | Some p \<Rightarrow>
          item_is_available p \<and>
          (case subevent of
             None \<Rightarrow> True
           | Some item_overrides \<Rightarrow> item_overrides (item_pk p) \<noteq> Some False))"

definition held_by_others :: "string list \<Rightarrow> annotated_seat \<Rightarrow> bool" where
  "held_by_others cart_seats seat =
     (a_has_order seat \<or> (a_has_cart seat \<and> a_guid seat \<notin> set cart_seats) \<or>
      a_has_voucher seat \<or> a_blocked seat)"

definition status_as_specified :: "bool \<Rightarrow> string list \<Rightarrow> annotated_seat \<Rightarrow> string" where
  "status_as_specified available cart_seats seat =
     (if \<not> available then ''unavailable''
      else if a_guid seat \<in> set cart_seats then ''selected''
      else if held_by_others cart_seats seat then ''unavailable''
      else ''available'')"

text \<open>
  A seat the caller's own cart holds, a blocked seat nobody holds, a seat with no product
  and no category, and an event with one available product.
\<close>

definition own_seat :: annotated_seat where
  "own_seat = \<lparr>a_guid = ''S1'', a_product = Some 1, a_has_order = False, a_has_cart = True,
               a_has_voucher = False, a_blocked = False\<rparr>"

definition blocked_seat :: annotated_seat where
  "blocked_seat = \<lparr>a_guid = ''S7'', a_product = Some 1, a_has_order = False, a_has_cart = False,
                   a_has_voucher = False, a_blocked = True\<rparr>"

definition unsold_seat :: annotated_seat where
  "unsold_seat = \<lparr>a_guid = ''S8'', a_product = None, a_has_order = False, a_has_cart = False,
                  a_has_voucher = False, a_blocked = False\<rparr>"

definition one_product :: "nat \<rightharpoonup> item" where
  "one_product = [1 \<mapsto> \<lparr>item_pk = 1, item_is_available = True\<rparr>]"

section \<open>Results on the taken predicate\<close>

lemma list_ex_order_iff:
  "list_ex (\<lambda>p. op_seat p = Some (seat_pk s) \<and>
                  op_order_status p \<in> set [STATUS_PENDING, STATUS_PAID]) (order_positions db)
   = has_order db s"
  by (auto simp: has_order_def list_ex_iff)

lemma list_ex_voucher_iff:
  "list_ex (\<lambda>v. v_seat v = Some (seat_pk s) \<and> voucher_live now v) (vouchers db)
   = has_voucher db now s"
  by (auto simp: has_voucher_def voucher_live_def list_ex_iff split: option.splits)

lemma filter_other_position_iff:
  "(filter (\<lambda>c. cp_pk c \<noteq> i)
      (filter (\<lambda>c. cp_seat c = Some (seat_pk s) \<and> now \<le> cp_expires c) (cart_positions db)) \<noteq> [])
   = has_other_position db now s i"
  by (auto simp: has_other_position_def filter_empty_conv)

text \<open>
  What the function computes, for a position \<open>pos\<close> that is being assigned (a primary
  key, so positive): the exclusion is by position, and the blocked flag plays no part.
\<close>

lemma is_seat_taken_by_position:
  assumes "0 < pos"
  shows "is_seat_taken db now s (Some pos) =
           (has_order db s \<or> has_voucher db now s \<or> has_other_position db now s pos)"
proof -
  let ?cpq = "filter (\<lambda>c. cp_pk c \<noteq> pos)
     (filter (\<lambda>c. cp_seat c = Some (seat_pk s) \<and> now \<le> cp_expires c) (cart_positions db))"
  from assms have "is_seat_taken db now s (Some pos) =
      (if has_order db s then True
       else if ?cpq \<noteq> [] then True
       else if has_voucher db now s then True else False)"
    unfolding is_seat_taken_def Let_def list_ex_order_iff list_ex_voucher_iff by simp
  also have "\<dots> = (has_order db s \<or> has_voucher db now s \<or> has_other_position db now s pos)"
    unfolding filter_other_position_iff by auto
  finally show ?thesis .
qed

text \<open>
  C1 at the write path. Position 1 of cart \<open>cart-a\<close> asks for seat S2, which position 2
  of the same cart holds: no order, no voucher, no other cart and no blocked flag stand
  against it, so the seat is not taken as specified, yet \<open>is_seat_taken\<close> answers true
  and the swap of the two seats is rejected. Seat S4 is blocked and held by nobody: it is
  taken as specified, yet \<open>is_seat_taken\<close> answers false and the request for it succeeds.
\<close>

theorem is_seat_taken_differs_from_specified:
  "is_seat_taken two_seat_cart 50 seat_S2 (Some 1) \<and>
   \<not> taken_as_specified two_seat_cart 50 seat_S2 ''cart-a'' \<and>
   fst (post SeatSelectionView swap_seats two_seat_cart) = seat_unavailable ''Row 1, Seat 2'' \<and>
   \<not> is_seat_taken hall_with_blocked_seat 50 seat_S4 (Some 1) \<and>
   taken_as_specified hall_with_blocked_seat 50 seat_S4 ''cart-a'' \<and>
   status (fst (post SeatSelectionView take_blocked hall_with_blocked_seat)) = ''success'' \<and>
   cart_positions (snd (post SeatSelectionView take_blocked hall_with_blocked_seat)) =
     [position_P1\<lparr>cp_seat := Some 4\<rparr>, position_P2\<lparr>cp_seat := None\<rparr>]"
proof -
  have own: "is_seat_taken two_seat_cart 50 seat_S2 (Some 1) \<and>
      \<not> taken_as_specified two_seat_cart 50 seat_S2 ''cart-a''"
    by (simp add: is_seat_taken_def taken_as_specified_def has_order_def has_voucher_def
        has_foreign_cart_def two_seat_cart_def seat_S2_def position_P1_def position_P2_def)
  have swap: "fst (post SeatSelectionView swap_seats two_seat_cart) =
      seat_unavailable ''Row 1, Seat 2''"
    by code_simp
  have flag: "\<not> is_seat_taken hall_with_blocked_seat 50 seat_S4 (Some 1) \<and>
      taken_as_specified hall_with_blocked_seat 50 seat_S4 ''cart-a''"
    by (simp add: is_seat_taken_def taken_as_specified_def hall_with_blocked_seat_def
        seat_S4_def position_P1_def position_P2_def)
  have take: "status (fst (post SeatSelectionView take_blocked hall_with_blocked_seat)) =
        ''success'' \<and>
      cart_positions (snd (post SeatSelectionView take_blocked hall_with_blocked_seat)) =
        [position_P1\<lparr>cp_seat := Some 4\<rparr>, position_P2\<lparr>cp_seat := None\<rparr>]"
    by code_simp
  from own swap flag take show ?thesis by simp
qed

section \<open>Results on the assignment endpoints\<close>

subsection \<open>Primary keys and their strings\<close>

lemma digit_of_nth: "n < 10 \<Longrightarrow> digit_of (''0123456789'' ! n) = Some n"
proof -
  assume "n < 10"
  then have "n \<in> {0, 1, 2, 3, 4, 5, 6, 7, 8, 9}" by auto
  then show ?thesis by (auto simp: digit_of_def)
qed

lemma str_nat_not_empty: "str_nat n \<noteq> []"
  by (subst str_nat.simps) simp

lemma fold_digits_str_nat:
  "fold (\<lambda>c acc. case acc of None \<Rightarrow> None
                  | Some a \<Rightarrow> (case digit_of c of None \<Rightarrow> None | Some d \<Rightarrow> Some (10 * a + d)))
     (str_nat n) (Some 0) = Some n"
proof (induction n rule: str_nat.induct)
  case (1 n)
  show ?case
  proof (cases "n < 10")
    case True
    then show ?thesis by (subst str_nat.simps) (simp add: digit_of_nth)
  next
    case False
    have "n mod 10 < 10" by simp
    with False 1 show ?thesis
      by (subst str_nat.simps) (simp add: digit_of_nth)
  qed
qed

text \<open>\<^verbatim>\<open>int(str(pk)) == pk\<close>, so no two primary keys share a key of \<^verbatim>\<open>position_map\<close>.\<close>

lemma int_str_str_nat: "int_str (str_nat n) = Some n"
  by (simp add: int_str_def str_nat_not_empty fold_digits_str_nat)

lemma str_nat_inject: "str_nat m = str_nat n \<Longrightarrow> m = n"
  by (metis int_str_str_nat option.inject)

subsection \<open>Validation comes before every write\<close>

lemma assign_seats_raises:
  "assign_seats pm sta db = (Some e, db') \<Longrightarrow> \<exists>k. e = KeyError k"
  by (induction pm sta db rule: assign_seats.induct) (auto split: option.splits)

lemma rejected_status: "rejected r \<Longrightarrow> http_status r = 400 \<or> http_status r = 404"
  by (auto simp: rejected_def position_not_in_cart_def duplicate_seat_assignment_def
      seat_not_found_def seat_unavailable_def error_response_def)

lemma post_after_commit:
  assumes "validate req db = Next sta"
  shows "http_status (fst (post v req db)) = 200 \<or> http_status (fst (post v req db)) = 500"
proof (cases "commit req sta db")
  case (Pair eo db')
  show ?thesis
  proof (cases eo)
    case None
    with Pair assms show ?thesis
      by (cases v) (simp_all add: post_def try_block_def success_def)
  next
    case (Some e)
    with Pair have "\<exists>k. e = KeyError k"
      unfolding commit_def Let_def by (auto dest: assign_seats_raises)
    with Some Pair assms show ?thesis
      by (auto simp: post_def try_block_def unexpected_failure_def error_response_def)
  qed
qed

lemma post_without_commit:
  assumes "\<And>sta. validate req db \<noteq> Next sta"
  shows "snd (post v req db) = db"
  using assms by (cases "validate req db") (auto simp: post_def try_block_def split: exc.splits)

text \<open>
  C6. A request that either endpoint rejects (position not in cart, duplicate seat in the
  batch, seat not found, seat taken) leaves the database as it was: no seat link of any
  cart position is modified, since every rejection is returned before the first write.
\<close>

theorem rejected_request_writes_nothing:
  assumes "rejected (fst (post v req db))"
  shows "snd (post v req db) = db"
proof (cases "\<exists>sta. validate req db = Next sta")
  case True
  then obtain sta where "validate req db = Next sta" ..
  from post_after_commit [OF this, of v] rejected_status [OF assms]
  show ?thesis by auto
next
  case False
  then show ?thesis by (intro post_without_commit) auto
qed

theorem rejected_request_writes_nothing_witness:
  "rejected (fst (post SeatSelectionView scenario_B two_seat_cart)) \<and>
   fst (post SeatSelectionView scenario_B two_seat_cart) = duplicate_seat_assignment \<and>
   snd (post SeatSelectionView scenario_B two_seat_cart) = two_seat_cart"
proof -
  have r: "fst (post SeatSelectionView scenario_B two_seat_cart) = duplicate_seat_assignment"
    by code_simp
  then have "rejected (fst (post SeatSelectionView scenario_B two_seat_cart))"
    by (simp add: rejected_def)
  from this r rejected_request_writes_nothing [OF this] show ?thesis by simp
qed

subsection \<open>The empty batch\<close>

lemma fold_upd_key:
  "(\<exists>p \<in> set ps. f p = k) \<or> m k \<noteq> None \<Longrightarrow> fold (\<lambda>p m. m(f p \<mapsto> p)) ps m k \<noteq> None"
  by (induction ps arbitrary: m) auto

lemma position_map_has_key: "p \<in> set ps \<Longrightarrow> position_map ps (str_nat (cp_pk p)) \<noteq> None"
  unfolding position_map_def by (rule fold_upd_key) auto

lemma positions_of_clear_seats:
  "positions_of req (clear_seats (position_map (positions_of req db)) db) =
     map (\<lambda>p. p\<lparr>cp_seat := None\<rparr>) (positions_of req db)"
proof -
  let ?P = "\<lambda>p. cp_cart_id p = req_cart_id req \<and> cp_event p = req_event req \<and> cp_admission p"
  let ?pm = "position_map (positions_of req db)"
  let ?clr = "\<lambda>r. if ?pm (str_nat (cp_pk r)) = None then r else r\<lparr>cp_seat := None\<rparr>"
  have same: "?P \<circ> ?clr = ?P" by (auto simp: fun_eq_iff)
  have "filter ?P (map ?clr (cart_positions db)) =
        map ?clr (filter (?P \<circ> ?clr) (cart_positions db))"
    by (rule filter_map)
  also have "\<dots> = map ?clr (filter ?P (cart_positions db))"
    unfolding same ..
  also have "\<dots> = map (\<lambda>p. p\<lparr>cp_seat := None\<rparr>) (filter ?P (cart_positions db))"
  proof (rule map_cong [OF refl])
    fix r assume "r \<in> set (filter ?P (cart_positions db))"
    then have "r \<in> set (positions_of req db)" by (simp add: positions_of_def)
    from position_map_has_key [OF this] show "?clr r = r\<lparr>cp_seat := None\<rparr>" by auto
  qed
  finally show ?thesis by (simp add: positions_of_def clear_seats_def)
qed

text \<open>
  C10, as amended. When the body is a JSON object whose \<^verbatim>\<open>seat_assignments\<close> member is
  absent or the empty mapping, either endpoint answers with HTTP 200 and status
  \<open>success\<close> (its success payload), and afterwards the admission positions of the
  caller's cart are the ones it had before, each with its seat link set to none.
\<close>

theorem empty_batch_clears_cart:
  assumes "req_body req = Object Absent \<or> req_body req = Object (Dict [])"
  shows "http_status (fst (post v req db)) = 200 \<and>
         status (fst (post v req db)) = ''success'' \<and>
         fst (post v req db) = success v req \<and>
         positions_of req (snd (post v req db)) =
           map (\<lambda>p. p\<lparr>cp_seat := None\<rparr>) (positions_of req db)"
proof -
  from assms have "validate req db = Next []"
    by (auto simp: validate_def seat_assignments_of_def)
  then have "post v req db =
      (success v req, clear_seats (position_map (positions_of req db)) db)"
    by (simp add: post_def try_block_def commit_def)
  moreover have "http_status (success v req) = 200 \<and> status (success v req) = ''success''"
    by (cases v) (simp_all add: success_def)
  ultimately show ?thesis by (simp add: positions_of_clear_seats)
qed

theorem empty_batch_clears_cart_witness:
  "req_body empty_batch = Object (Dict []) \<and>
   http_status (fst (post SeatSelectionView empty_batch two_seat_cart)) = 200 \<and>
   status (fst (post SeatSelectionView empty_batch two_seat_cart)) = ''success'' \<and>
   positions_of empty_batch (snd (post SeatSelectionView empty_batch two_seat_cart)) =
     [position_P1\<lparr>cp_seat := None\<rparr>, position_P2\<lparr>cp_seat := None\<rparr>]"
proof -
  have b: "req_body empty_batch = Object Absent \<or> req_body empty_batch = Object (Dict [])"
    by (simp add: empty_batch_def)
  have p: "positions_of empty_batch two_seat_cart = [position_P1, position_P2]"
    by (simp add: positions_of_def empty_batch_def two_seat_cart_def position_P1_def
        position_P2_def)
  have e: "req_body empty_batch = Object (Dict [])"
    by (simp add: empty_batch_def)
  from empty_batch_clears_cart [OF b, of SeatSelectionView two_seat_cart] p e
  show ?thesis by (simp add: success_def)
qed

text \<open>
  C10 as stated fails: the JSON list \<^verbatim>\<open>[]\<close> is a valid body with no
  \<^verbatim>\<open>seat_assignments\<close>, and the object \<^verbatim>\<open>{"seat_assignments": null}\<close> is a valid body
  with no mapping; both are answered with HTTP 500 and status \<open>error\<close>, and the two
  positions of the cart keep their seats.
\<close>

theorem valid_json_without_mapping_counterexample:
  "req_body list_body = NotObject PyList \<and>
   http_status (fst (post SeatSelectionView list_body two_seat_cart)) = 500 \<and>
   status (fst (post SeatSelectionView list_body two_seat_cart)) = ''error'' \<and>
   snd (post SeatSelectionView list_body two_seat_cart) = two_seat_cart \<and>
   req_body null_member = Object (NotDict PyNone) \<and>
   http_status (fst (post SeatSelectionView null_member two_seat_cart)) = 500 \<and>
   status (fst (post SeatSelectionView null_member two_seat_cart)) = ''error'' \<and>
   snd (post SeatSelectionView null_member two_seat_cart) = two_seat_cart \<and>
   map cp_seat (positions_of list_body two_seat_cart) = [Some 1, Some 2]"
  by (simp add: post_def try_block_def validate_def seat_assignments_of_def list_body_def
      null_member_def unexpected_failure_def error_response_def positions_of_def
      two_seat_cart_def position_P1_def position_P2_def)

subsection \<open>The effect of a committed batch\<close>

lemma positions_of_in_cart: "positions_of req db = filter (in_cart req) (cart_positions db)"
  by (simp add: positions_of_def in_cart_def [abs_def])

lemma resolve_seats_Next:
  "resolve_seats db req sa acc = Next sta \<Longrightarrow>
     sta = acc @ map (\<lambda>(k, g). (k, hd (seats_with_guid db req g))) sa \<and>
     (\<forall>(k, g) \<in> set sa. \<exists>s. seats_with_guid db req g = [s])"
proof (induction sa arbitrary: acc)
  case Nil
  then show ?case by simp
next
  case (Cons x sa)
  obtain k g where x: "x = (k, g)" by (cases x)
  from Cons.prems obtain s where
    s: "seats_with_guid db req g = [s]" and
    rest: "resolve_seats db req sa (acc @ [(k, s)]) = Next sta"
    unfolding x by (auto simp: seats_with_guid_def split: list.splits option.splits if_splits)
  from Cons.IH [OF rest] s show ?case unfolding x by simp
qed

lemma validate_Next:
  assumes "validate req db = Next sta" and "seat_assignments_of (req_body req) = Next sa"
  shows "resolve_seats db req sa [] = Next sta"
    and "\<forall>k \<in> set (map fst sa). position_map (positions_of req db) k \<noteq> None"
  using assms by (auto simp: validate_def list_ex_iff split: if_splits)

lemma fold_upd_Some:
  "fold (\<lambda>p m. m(f p \<mapsto> p)) ps m k = Some p \<Longrightarrow> (p \<in> set ps \<and> f p = k) \<or> m k = Some p"
proof (induction ps arbitrary: m)
  case Nil
  then show ?case by simp
next
  case (Cons a ps)
  from Cons.prems have "fold (\<lambda>p m. m(f p \<mapsto> p)) ps (m(f a \<mapsto> a)) k = Some p"
    by (simp only: fold.simps comp_apply)
  from Cons.IH [OF this] show ?case by (auto split: if_splits)
qed

lemma fold_upd_other:
  "k \<notin> f ` set ps \<Longrightarrow> fold (\<lambda>p m. m(f p \<mapsto> p)) ps m k = m k"
  by (induction ps arbitrary: m) auto

lemma fold_upd_lookup:
  "distinct (map f ps) \<Longrightarrow> p \<in> set ps \<Longrightarrow> fold (\<lambda>p m. m(f p \<mapsto> p)) ps m (f p) = Some p"
  by (induction ps arbitrary: m) (auto simp: fold_upd_other)

lemma position_map_Some:
  "position_map ps k = Some p \<Longrightarrow> p \<in> set ps \<and> k = str_nat (cp_pk p)"
  unfolding position_map_def by (auto dest: fold_upd_Some)

lemma position_map_lookup:
  assumes "distinct (map cp_pk ps)" and "p \<in> set ps"
  shows "position_map ps (str_nat (cp_pk p)) = Some p"
proof -
  have "inj str_nat" by (auto intro: injI str_nat_inject)
  with assms(1) have "distinct (map (\<lambda>p. str_nat (cp_pk p)) ps)"
    by (simp add: distinct_map inj_on_def comp_def)
  from fold_upd_lookup [OF this assms(2)] show ?thesis by (simp add: position_map_def)
qed

lemma save_existing:
  assumes "cp_pk p \<in> cp_pk ` set (cart_positions db)"
  shows "save p db = db\<lparr>cart_positions := map (\<lambda>r. if cp_pk r = cp_pk p then p else r) (cart_positions db)\<rparr>"
  using assms by (auto simp: save_def list_ex_iff)

lemma assign_seats_closed:
  assumes "\<forall>(k, s) \<in> set sta. \<exists>p. pm k = Some p \<and> cp_pk p \<in> cp_pk ` set (cart_positions db)"
  shows "assign_seats pm sta db =
           (None, db\<lparr>cart_positions := map (write_row pm sta) (cart_positions db)\<rparr>)"
  using assms
proof (induction sta arbitrary: db)
  case Nil
  then show ?case by simp
next
  case (Cons x sta)
  obtain k s where x: "x = (k, s)" by (cases x)
  from Cons.prems obtain p where p: "pm k = Some p"
    and pk: "cp_pk p \<in> cp_pk ` set (cart_positions db)"
    unfolding x by auto
  let ?p = "p\<lparr>cp_seat := Some (seat_pk s)\<rparr>"
  let ?sv = "\<lambda>r. if cp_pk r = cp_pk p then ?p else r"
  let ?db = "db\<lparr>cart_positions := map ?sv (cart_positions db)\<rparr>"
  from pk have sv: "save ?p db = ?db" by (simp add: save_existing)
  have "map cp_pk (map ?sv xs) = map cp_pk xs" for xs
    by (induction xs) auto
  then have "set (map cp_pk (map ?sv xs)) = set (map cp_pk xs)" for xs
    by (simp only:)
  then have img: "cp_pk ` set (map ?sv xs) = cp_pk ` set xs" for xs
    by (simp only: set_map)
  have rows: "cart_positions ?db = map ?sv (cart_positions db)" by simp
  have keys: "cp_pk ` set (cart_positions ?db) = cp_pk ` set (cart_positions db)"
    by (simp only: rows img)
  have "\<forall>(k, s) \<in> set sta. \<exists>p. pm k = Some p \<and> cp_pk p \<in> cp_pk ` set (cart_positions ?db)"
    unfolding keys using Cons.prems by auto
  from Cons.IH [OF this] p sv show ?case
    unfolding x by (simp add: comp_def)
qed

lemma write_row_other:
  assumes "\<forall>(k, s) \<in> set sta. \<exists>p. pm k = Some p \<and> cp_pk p \<noteq> cp_pk r"
  shows "write_row pm sta r = r"
  using assms by (induction sta) auto

lemma write_row_own:
  assumes "\<forall>(k, s) \<in> set sta. pm k \<noteq> None"
    and "\<And>k p. pm k = Some p \<Longrightarrow> k = str_nat (cp_pk p)"
    and "pm (str_nat (cp_pk r)) = Some r"
    and "cp_pk r1 = cp_pk r"
  shows "write_row pm sta r1 =
           (case map_of (rev sta) (str_nat (cp_pk r)) of
              None \<Rightarrow> r1
            | Some s \<Rightarrow> r\<lparr>cp_seat := Some (seat_pk s)\<rparr>)"
  using assms(1,4)
proof (induction sta arbitrary: r1)
  case Nil
  then show ?case by simp
next
  case (Cons x sta)
  obtain k s where x: "x = (k, s)" by (cases x)
  from Cons.prems(1) obtain p where p: "pm k = Some p" unfolding x by auto
  from assms(2) [OF p] have k: "k = str_nat (cp_pk p)" .
  from Cons.prems(1) have rest: "\<forall>(k, s) \<in> set sta. pm k \<noteq> None" by simp
  show ?case
  proof (cases "cp_pk r1 = cp_pk p")
    case True
    with Cons.prems(2) k have "k = str_nat (cp_pk r)" by simp
    with p assms(3) have pr: "p = r" by simp
    let ?r = "r\<lparr>cp_seat := Some (seat_pk s)\<rparr>"
    have "cp_pk ?r = cp_pk r" by simp
    from Cons.IH [OF rest this] p pr True \<open>k = str_nat (cp_pk r)\<close> show ?thesis
      unfolding x by (simp add: map_add_def split: option.splits)
  next
    case False
    with Cons.prems(2) have "cp_pk p \<noteq> cp_pk r" by simp
    with k str_nat_inject have ne: "k \<noteq> str_nat (cp_pk r)" by auto
    from Cons.IH [OF rest Cons.prems(2)] p False ne show ?thesis
      unfolding x by (simp add: map_add_def split: option.splits)
  qed
qed

lemma map_of_rev_distinct: "distinct (map fst xs) \<Longrightarrow> map_of (rev xs) = map_of xs"
proof (induction xs)
  case Nil
  then show ?case by simp
next
  case (Cons x xs)
  obtain a b where x: "x = (a, b)" by (cases x)
  from Cons.prems have none: "map_of xs a = None"
    unfolding x by (simp add: map_of_eq_None_iff)
  from Cons have IH: "map_of (rev xs) = map_of xs" by simp
  show ?case
    unfolding x by (rule ext) (auto simp: map_add_def IH none split: option.splits)
qed

lemma map_of_map_values:
  "map_of (map (\<lambda>(k, g). (k, f g)) xs) k = map_option f (map_of xs k)"
  by (induction xs) auto

lemma clear_seats_pks:
  "cp_pk ` set (cart_positions (clear_seats pm db)) = cp_pk ` set (cart_positions db)"
proof -
  let ?clr = "\<lambda>r. if pm (str_nat (cp_pk r)) = None then r else r\<lparr>cp_seat := None\<rparr>"
  have m: "map cp_pk (map ?clr xs) = map cp_pk xs" for xs :: "cart_position list"
    by (induction xs) auto
  have "set (map cp_pk (map ?clr xs)) = set (map cp_pk xs)" for xs :: "cart_position list"
    by (simp only: m)
  then have img: "cp_pk ` set (map ?clr xs) = cp_pk ` set xs" for xs :: "cart_position list"
    by (simp only: set_map)
  have rows: "cart_positions (clear_seats pm db) = map ?clr (cart_positions db)"
    by (simp add: clear_seats_def)
  show ?thesis by (simp only: rows img)
qed

text \<open>
  C2, as amended. When every pair of the batch passes validation, either endpoint answers
  with its success payload, and the table of cart positions afterwards is the table
  before in which every admission position of the caller's cart for the event, whether
  or not it appears in the batch, has the seat link the batch asks for it (none when the
  batch does not name it), and every other row is as it was. The primary keys of the
  table and the position ids of the batch are distinct, as in a table and in a mapping.
\<close>

theorem commit_effect:
  assumes sa: "seat_assignments_of (req_body req) = Next sa"
    and keys: "distinct (map fst sa)"
    and pks: "distinct (map cp_pk (cart_positions db))"
    and ok: "validate req db = Next sta"
  shows "post v req db =
           (success v req,
            db\<lparr>cart_positions :=
                 map (\<lambda>r. if in_cart req r then r\<lparr>cp_seat := seat_link db req sa (cp_pk r)\<rparr> else r)
                   (cart_positions db)\<rparr>)"
proof -
  let ?ps = "positions_of req db"
  let ?pm = "position_map ?ps"
  let ?clr = "\<lambda>r. if ?pm (str_nat (cp_pk r)) = None then r else r\<lparr>cp_seat := None\<rparr>"
  let ?cleared = "clear_seats ?pm db"
  from validate_Next [OF ok sa]
  have res: "resolve_seats db req sa [] = Next sta"
    and present: "\<forall>k \<in> set (map fst sa). ?pm k \<noteq> None" by auto
  from resolve_seats_Next [OF res]
  have sta: "sta = map (\<lambda>(k, g). (k, hd (seats_with_guid db req g))) sa"
    and single: "\<forall>(k, g) \<in> set sa. \<exists>s. seats_with_guid db req g = [s]" by auto
  have sta_keys: "map fst sta = map fst sa"
    unfolding sta by (induction sa) auto
  have ps_pks: "distinct (map cp_pk ?ps)"
    unfolding positions_of_def using pks by (rule distinct_map_filter)
  have ps_rows: "set ?ps \<subseteq> set (cart_positions db)"
    by (auto simp: positions_of_def)
  have pm_key: "k = str_nat (cp_pk p)" and pm_in: "p \<in> set ?ps" if "?pm k = Some p" for k p
    using position_map_Some [OF that] by auto
  have in_pm: "?pm k \<noteq> None" if "(k, s) \<in> set sta" for k s
  proof -
    from that have "k \<in> set (map fst sta)" by force
    with present show ?thesis unfolding sta_keys by auto
  qed
  have "\<forall>(k, s) \<in> set sta. \<exists>p. ?pm k = Some p \<and> cp_pk p \<in> cp_pk ` set (cart_positions ?cleared)"
  proof (clarify)
    fix k s assume "(k, s) \<in> set sta"
    from in_pm [OF this] obtain p where p: "?pm k = Some p" by auto
    from pm_in [OF p] ps_rows have "p \<in> set (cart_positions db)" by auto
    then have "cp_pk p \<in> cp_pk ` set (cart_positions ?cleared)"
      unfolding clear_seats_pks by (rule imageI)
    with p show "\<exists>p. ?pm k = Some p \<and> cp_pk p \<in> cp_pk ` set (cart_positions ?cleared)"
      by auto
  qed
  from assign_seats_closed [OF this]
  have "commit req sta db =
      (None, ?cleared\<lparr>cart_positions := map (write_row ?pm sta) (cart_positions ?cleared)\<rparr>)"
    by (simp add: commit_def Let_def)
  then have post: "post v req db =
      (success v req, db\<lparr>cart_positions := map (write_row ?pm sta \<circ> ?clr) (cart_positions db)\<rparr>)"
    using ok by (simp add: post_def try_block_def clear_seats_def)
  have "map (write_row ?pm sta \<circ> ?clr) (cart_positions db) =
        map (\<lambda>r. if in_cart req r then r\<lparr>cp_seat := seat_link db req sa (cp_pk r)\<rparr> else r)
          (cart_positions db)"
  proof (rule map_cong [OF refl])
    fix r assume r: "r \<in> set (cart_positions db)"
    show "(write_row ?pm sta \<circ> ?clr) r =
          (if in_cart req r then r\<lparr>cp_seat := seat_link db req sa (cp_pk r)\<rparr> else r)"
    proof (cases "in_cart req r")
      case True
      with r have "r \<in> set ?ps" by (simp add: positions_of_in_cart)
      from position_map_lookup [OF ps_pks this] have own: "?pm (str_nat (cp_pk r)) = Some r" .
      have "\<forall>(k, s) \<in> set sta. ?pm k \<noteq> None" using in_pm by auto
      from write_row_own [of sta ?pm r "r\<lparr>cp_seat := None\<rparr>", OF this pm_key own]
      have w: "write_row ?pm sta (r\<lparr>cp_seat := None\<rparr>) =
          (case map_of (rev sta) (str_nat (cp_pk r)) of
             None \<Rightarrow> r\<lparr>cp_seat := None\<rparr>
           | Some s \<Rightarrow> r\<lparr>cp_seat := Some (seat_pk s)\<rparr>)" by simp
      from keys sta_keys have "distinct (map fst sta)" by simp
      from map_of_rev_distinct [OF this]
      have m: "map_of (rev sta) (str_nat (cp_pk r)) =
          map_option (\<lambda>g. hd (seats_with_guid db req g)) (map_of sa (str_nat (cp_pk r)))"
        unfolding sta by (simp add: map_of_map_values)
      have "seat_link db req sa (cp_pk r) =
          map_option seat_pk (map_of (rev sta) (str_nat (cp_pk r)))"
      proof (cases "map_of sa (str_nat (cp_pk r))")
        case None
        then show ?thesis by (simp add: seat_link_def m)
      next
        case (Some g)
        then have "(str_nat (cp_pk r), g) \<in> set sa" by (rule map_of_SomeD)
        with single obtain s where "seats_with_guid db req g = [s]" by auto
        with Some show ?thesis by (simp add: seat_link_def m)
      qed
      with w own True show ?thesis by (simp split: option.splits)
    next
      case False
      have none: "?pm (str_nat (cp_pk r)) = None"
      proof (rule ccontr)
        assume "?pm (str_nat (cp_pk r)) \<noteq> None"
        then obtain p where p: "?pm (str_nat (cp_pk r)) = Some p" by auto
        from pm_key [OF p] have "cp_pk p = cp_pk r" by (auto dest: str_nat_inject)
        moreover from pm_in [OF p] ps_rows have "p \<in> set (cart_positions db)" by auto
        ultimately have "p = r" using r pks by (auto simp: distinct_map inj_on_def)
        with pm_in [OF p] False show False by (simp add: positions_of_in_cart)
      qed
      have "\<forall>(k, s) \<in> set sta. \<exists>p. ?pm k = Some p \<and> cp_pk p \<noteq> cp_pk r"
      proof (clarify)
        fix k s assume "(k, s) \<in> set sta"
        from in_pm [OF this] obtain p where p: "?pm k = Some p" by auto
        have "cp_pk p \<noteq> cp_pk r"
        proof
          assume "cp_pk p = cp_pk r"
          with pm_key [OF p] none p show False by simp
        qed
        with p show "\<exists>p. ?pm k = Some p \<and> cp_pk p \<noteq> cp_pk r" by auto
      qed
      from write_row_other [OF this] none False show ?thesis by simp
    qed
  qed
  with post show ?thesis by simp
qed

theorem commit_effect_witness:
  "validate move_P1 two_seat_cart = Next [(''1'', seat_S3)] \<and>
   post CheckoutSeatSelectionView move_P1 two_seat_cart =
     (success CheckoutSeatSelectionView move_P1,
      two_seat_cart\<lparr>cart_positions :=
        [position_P1\<lparr>cp_seat := Some 3\<rparr>, position_P2\<lparr>cp_seat := None\<rparr>]\<rparr>)"
proof -
  have sa: "seat_assignments_of (req_body move_P1) = Next [(''1'', ''S3'')]"
    by (simp add: move_P1_def seat_assignments_of_def)
  have keys: "distinct (map fst [(''1'', ''S3'')])" by simp
  have pks: "distinct (map cp_pk (cart_positions two_seat_cart))"
    by (simp add: two_seat_cart_def position_P1_def position_P2_def)
  have ok: "validate move_P1 two_seat_cart = Next [(''1'', seat_S3)]"
    by code_simp
  have l1: "seat_link two_seat_cart move_P1 [(''1'', ''S3'')] 1 = Some 3"
    by code_simp
  have l2: "seat_link two_seat_cart move_P1 [(''1'', ''S3'')] 2 = None"
    by code_simp
  from commit_effect [OF sa keys pks ok, of CheckoutSeatSelectionView] ok l1 l2
  show ?thesis
    by (simp add: two_seat_cart_def in_cart_def move_P1_def position_P1_def position_P2_def)
qed

text \<open>
  C2 as stated fails: position 2 does not appear in the batch and held seat S2, and the
  committed batch leaves it without a seat.
\<close>

theorem commit_clears_unnamed_position_counterexample:
  "map fst [(''1'', ''S3'')] = [''1''] \<and>
   req_body move_P1 = Object (Dict [(''1'', ''S3'')]) \<and>
   status (fst (post SeatSelectionView move_P1 two_seat_cart)) = ''success'' \<and>
   cart_positions two_seat_cart = [position_P1, position_P2] \<and>
   cp_seat position_P2 = Some 2 \<and>
   cart_positions (snd (post SeatSelectionView move_P1 two_seat_cart)) =
     [position_P1\<lparr>cp_seat := Some 3\<rparr>, position_P2\<lparr>cp_seat := None\<rparr>]"
  by code_simp

subsection \<open>Unexpected errors\<close>

text \<open>
  C8, as amended. When the handler's \<^verbatim>\<open>try\<close> block raises anything but a JSON decoding
  error, either endpoint answers with HTTP 500, status \<open>error\<close>, and, as the message,
  the text of the exception that was raised.
\<close>

theorem unexpected_error_response:
  assumes "try_block v req db = (Inl e, db')" and "e \<noteq> JSONDecodeError"
  shows "fst (post v req db) =
           \<lparr>http_status = 500, status = ''error'', message = Some (str_exc e), redirect = None\<rparr>"
  using assms by (cases e) (simp_all add: post_def unexpected_failure_def error_response_def)

theorem unexpected_error_response_witness:
  "try_block SeatSelectionView list_body two_seat_cart =
     (Inl (AttributeError ''list'' ''get''), two_seat_cart) \<and>
   fst (post SeatSelectionView list_body two_seat_cart) =
     \<lparr>http_status = 500, status = ''error'',
      message = Some (str_exc (AttributeError ''list'' ''get'')), redirect = None\<rparr>"
proof -
  have t: "try_block SeatSelectionView list_body two_seat_cart =
      (Inl (AttributeError ''list'' ''get''), two_seat_cart)"
    by (simp add: try_block_def validate_def seat_assignments_of_def list_body_def type_name_def)
  from t unexpected_error_response [OF t] show ?thesis by simp
qed

text \<open>
  C8 as stated fails: the message is not generic. A body that is a JSON list and a body
  whose \<^verbatim>\<open>seat_assignments\<close> is \<^verbatim>\<open>null\<close> are both answered with HTTP 500, with two
  different messages, each naming a type and an attribute of the implementation.
\<close>

theorem unexpected_error_message_counterexample:
  "message (fst (post SeatSelectionView list_body two_seat_cart)) =
     Some (quoted ''list'' @ '' object has no attribute '' @ quoted ''get'') \<and>
   message (fst (post SeatSelectionView null_member two_seat_cart)) =
     Some (quoted ''NoneType'' @ '' object has no attribute '' @ quoted ''keys'') \<and>
   http_status (fst (post SeatSelectionView list_body two_seat_cart)) = 500 \<and>
   http_status (fst (post SeatSelectionView null_member two_seat_cart)) = 500"
  by (simp add: post_def try_block_def validate_def seat_assignments_of_def list_body_def
      null_member_def unexpected_failure_def error_response_def str_exc_def type_name_def)

section \<open>Results on category mappings\<close>

lemma fold_dict_last:
  "fold (\<lambda>m d. d(k m \<mapsto> v m)) xs d0 c =
     (case filter (\<lambda>m. k m = c) xs of [] \<Rightarrow> d0 c | ys \<Rightarrow> Some (v (last ys)))"
proof (induction xs arbitrary: d0)
  case Nil
  then show ?case by simp
next
  case (Cons x xs)
  show ?case
    by (simp only: fold.simps comp_apply Cons.IH) (auto split: list.splits)
qed

lemma fold_dict_Some:
  "fold (\<lambda>m d. d(k m \<mapsto> v m)) xs Map.empty c = Some p \<Longrightarrow>
     \<exists>m \<in> set xs. k m = c \<and> v m = p"
proof -
  assume a: "fold (\<lambda>m d. d(k m \<mapsto> v m)) xs Map.empty c = Some p"
  let ?ys = "filter (\<lambda>m. k m = c) xs"
  from a have ne: "?ys \<noteq> []" and "v (last ?ys) = p"
    by (auto simp: fold_dict_last split: list.splits)
  moreover from ne have "last ?ys \<in> set ?ys" by (rule last_in_set)
  ultimately show ?thesis by auto
qed

lemma fold_dict_None:
  "(fold (\<lambda>m d. d(k m \<mapsto> v m)) xs Map.empty c = None) = (\<forall>m \<in> set xs. k m \<noteq> c)"
proof (cases "filter (\<lambda>m. k m = c) xs")
  case Nil
  then have "\<forall>m \<in> set xs. k m \<noteq> c" by (simp add: filter_empty_conv)
  with Nil show ?thesis by (simp add: fold_dict_last)
next
  case (Cons y ys)
  then have "y \<in> set (filter (\<lambda>m. k m = c) xs)" by simp
  then have "y \<in> set xs \<and> k y = c" by simp
  with Cons show ?thesis by (auto simp: fold_dict_last)
qed

lemma set_order_by_subevent_reversed: "set (order_by_subevent_reversed q) = set q"
  by (auto simp: order_by_subevent_reversed_def)

text \<open>
  The data endpoint resolves as the specification says: what it finds is a product the
  specified resolution allows, and it finds one whenever there is one.
\<close>

lemma api_mappings_sound:
  assumes "api_category_mappings table event subevent c = Some p"
  shows "resolves_to table event subevent c p"
proof (cases subevent)
  case None
  with assms show ?thesis
    by (auto simp: api_category_mappings_def resolves_to_def general_mapping_def
        dest!: fold_dict_Some)
next
  case (Some s)
  let ?q = "filter (\<lambda>m. m_subevent m = Some s \<or> m_subevent m = None)
              (filter (\<lambda>m. m_event m = event) table)"
  let ?gen = "filter (\<lambda>m. m_subevent m = None) ?q"
  let ?spec = "rev (sort_key (\<lambda>m. case m_subevent m of None \<Rightarrow> 0 | Some s \<Rightarrow> s)
                      (filter (\<lambda>m. m_subevent m \<noteq> None) ?q))"
  let ?c = "\<lambda>m. m_layout_category m = c"
  have spec_set: "set ?spec = {m \<in> set table. m_event m = event \<and> m_subevent m = Some s}"
    by auto
  have gen_set: "set ?gen = {m \<in> set table. m_event m = event \<and> m_subevent m = None}"
    by auto
  from assms Some have f: "fold (\<lambda>m d. d(m_layout_category m \<mapsto> m_product m)) (?gen @ ?spec)
      Map.empty c = Some p"
    by (simp add: api_category_mappings_def order_by_subevent_reversed_def Let_def)
  show ?thesis
  proof (cases "filter ?c ?spec = []")
    case True
    then have none: "\<forall>m \<in> set ?spec. m_layout_category m \<noteq> c"
      by (simp only: filter_empty_conv)
    have no_spec: "\<nexists>p'. specific_mapping table event s c p'"
      using none unfolding spec_set by (auto simp: specific_mapping_def)
    from f True have "filter ?c ?gen \<noteq> []" and "m_product (last (filter ?c ?gen)) = p"
      by (auto simp: fold_dict_last split: list.splits)
    moreover then have "last (filter ?c ?gen) \<in> set (filter ?c ?gen)" by (intro last_in_set)
    ultimately have "\<exists>m \<in> set ?gen. m_layout_category m = c \<and> m_product m = p" by auto
    then have "general_mapping table event c p"
      unfolding gen_set by (auto simp: general_mapping_def)
    with no_spec Some show ?thesis by (simp add: resolves_to_def)
  next
    case False
    with f have "m_product (last (filter ?c ?spec)) = p"
      by (auto simp: fold_dict_last split: list.splits)
    moreover from False have "last (filter ?c ?spec) \<in> set (filter ?c ?spec)"
      by (rule last_in_set)
    ultimately have "\<exists>m \<in> set ?spec. m_layout_category m = c \<and> m_product m = p" by auto
    then have "specific_mapping table event s c p"
      unfolding spec_set by (auto simp: specific_mapping_def)
    with Some show ?thesis by (simp add: resolves_to_def)
  qed
qed

lemma api_mappings_complete:
  assumes "resolves_to table event subevent c p"
  shows "api_category_mappings table event subevent c \<noteq> None"
proof (cases subevent)
  case None
  with assms show ?thesis
    by (auto simp: api_category_mappings_def resolves_to_def general_mapping_def
        fold_dict_None)
next
  case (Some s)
  with assms show ?thesis
    by (auto simp: api_category_mappings_def resolves_to_def general_mapping_def
        specific_mapping_def fold_dict_None set_order_by_subevent_reversed Let_def)
qed

text \<open>
  C3 at the checkout view. With the mappings of scenario A and no subevent, the category
  Standard has the general product 2, which the data endpoint finds; the checkout view
  finds product 3, the mapping of subevent 5. With the specific mapping alone and no
  subevent, no product is specified, and the checkout view still finds product 3.
\<close>

theorem checkout_mappings_ignore_subevent:
  "checkout_product_mappings scenario_A_mappings 1 ''Standard'' = Some 3 \<and>
   api_category_mappings scenario_A_mappings 1 None ''Standard'' = Some 2 \<and>
   resolves_to scenario_A_mappings 1 None ''Standard'' 2 \<and>
   \<not> resolves_to scenario_A_mappings 1 None ''Standard'' 3 \<and>
   checkout_product_mappings specific_only 1 ''Standard'' = Some 3 \<and>
   api_category_mappings specific_only 1 None ''Standard'' = None \<and>
   \<not> resolves_to specific_only 1 None ''Standard'' 3"
  by (simp add: checkout_product_mappings_def api_category_mappings_def resolves_to_def
      general_mapping_def scenario_A_mappings_def specific_only_def)

section \<open>Results on layouts\<close>

subsection \<open>The data endpoint on the documented forms\<close>

lemma row_category_get:
  "py_get (encode_row row) ''category'' JNull =
     Inr (case fst row of None \<Rightarrow> JNull | Some s \<Rightarrow> JStr s)"
  by (cases "fst row") (simp_all add: py_get_def encode_row_def opt_member_def)

lemma api_zone_seat_encode:
  "api_zone_seat (case rc of None \<Rightarrow> JNull | Some s \<Rightarrow> JStr s) (encode_seat seat) d =
     Inr (enter (fst seat) (effective_category rc seat) d)"
  by (cases seat; cases rc; cases "snd seat")
     (auto simp: api_zone_seat_def and_then_def py_get_def encode_seat_def opt_member_def
       truthy_def store_def enter_def effective_category_def present_def)

lemma api_zone_seats_loop:
  "for_each (api_zone_seat (case rc of None \<Rightarrow> JNull | Some s \<Rightarrow> JStr s))
       (map encode_seat xs) d =
     Inr (fold (\<lambda>seat. enter (fst seat) (effective_category rc seat)) xs d)"
  by (induction xs arbitrary: d) (simp_all add: api_zone_seat_encode)

lemma api_row_encode:
  "api_row (encode_row row) d =
     Inr (fold (\<lambda>seat. enter (fst seat) (effective_category (fst row) seat)) (snd row) d)"
proof -
  have seats: "py_get (encode_row row) ''seats'' (JArr []) = Inr (JArr (map encode_seat (snd row)))"
    by (cases "fst row") (simp_all add: py_get_def encode_row_def opt_member_def)
  have has: "py_in ''seats'' (encode_row row) = Inr True"
    by (cases "fst row") (simp_all add: py_in_def encode_row_def opt_member_def)
  show ?thesis
    unfolding api_row_def row_category_get seats has
    by (simp add: and_then_def py_iter_def api_zone_seats_loop)
qed

lemma api_rows_loop:
  "for_each api_row (map encode_row xs) d =
     Inr (fold (\<lambda>row. fold (\<lambda>seat. enter (fst seat) (effective_category (fst row) seat)) (snd row))
            xs d)"
  by (induction xs arbitrary: d) (simp_all add: api_row_encode)

lemma api_zone_encode:
  "api_zone (encode_zone rows) d =
     Inr (fold (\<lambda>row. fold (\<lambda>seat. enter (fst seat) (effective_category (fst row) seat)) (snd row))
            rows d)"
  by (simp add: api_zone_def encode_zone_def and_then_def py_in_def py_get_def py_iter_def
      api_rows_loop)

lemma api_zones_loop:
  "for_each api_zone (map encode_zone xs) d =
     Inr (fold (\<lambda>zone. fold (\<lambda>row. fold (\<lambda>seat. enter (fst seat) (effective_category (fst row) seat))
                                       (snd row)) zone)
            xs d)"
  by (induction xs arbitrary: d) (simp_all add: api_zone_encode)

lemma find_seat_categories_zones:
  "find_seat_categories (encode_zones zones) Map.empty = Inr (specified_zone_categories zones)"
  by (simp add: find_seat_categories_def encode_zones_def and_then_def py_in_def py_get_def
      py_iter_def specified_zone_categories_def api_zones_loop)

lemma api_flat_seat_encode:
  "api_flat_seat (encode_seat seat) d =
     Inr (enter (fst seat) (if present (snd seat) then snd seat else None) d)"
  by (cases seat; cases "snd seat")
     (auto simp: api_flat_seat_def and_then_def py_get_def encode_seat_def opt_member_def
       truthy_def store_def enter_def present_def)

lemma api_flat_loop:
  "for_each api_flat_seat (map encode_seat xs) d =
     Inr (fold (\<lambda>seat. enter (fst seat) (if present (snd seat) then snd seat else None)) xs d)"
  by (induction xs arbitrary: d) (simp_all add: api_flat_seat_encode)

lemma find_seat_categories_flat:
  "find_seat_categories (encode_flat nodes) Map.empty = Inr (specified_flat_categories nodes)"
  by (simp add: find_seat_categories_def encode_flat_def and_then_def py_in_def py_get_def
      py_iter_def specified_flat_categories_def api_flat_loop)

subsection \<open>The checkout view has no row fallback and no flat form\<close>

text \<open>
  C4 at the checkout view. In the layout of scenario A, seat S2 has no category of its own
  and its row has category Standard: the data endpoint resolves Standard, the checkout
  view resolves nothing. In the flat layout, seat S9 has category VIP: the data endpoint
  resolves VIP, the checkout view, which reads \<^verbatim>\<open>zones\<close> only, resolves nothing.
\<close>

theorem checkout_layout_has_no_row_fallback:
  "category_of (guid_to_category_name scenario_A_layout) ''S2'' = Inr JNull \<and>
   category_of (find_seat_categories scenario_A_layout Map.empty) ''S2'' = Inr (JStr ''Standard'') \<and>
   category_of (guid_to_category_name flat_layout) ''S9'' = Inr JNull \<and>
   category_of (find_seat_categories flat_layout Map.empty) ''S9'' = Inr (JStr ''VIP'')"
  by code_simp

subsection \<open>Layouts that do not parse\<close>

text \<open>The checkout view always ends with a dict, the empty one for the payloads of C7.\<close>

lemma checkout_layout_data_object: "\<exists>kvs. checkout_layout_data loads raw = JObj kvs"
  by (auto simp: checkout_layout_data_def split: option.splits json.splits)

lemma checkout_layout_data_degrades:
  assumes "raw = [] \<or> loads raw = None \<or>
           (\<exists>j. loads raw = Some j \<and> json_type j \<noteq> ''dict'' \<and> json_type j \<noteq> ''str'')"
  shows "checkout_layout_data loads raw = JObj []"
proof -
  consider (empty) "raw = []" | (unparsable) "loads raw = None"
    | (other) j where "loads raw = Some j" "json_type j \<noteq> ''dict''" "json_type j \<noteq> ''str''"
    using assms by auto
  then show ?thesis
  proof cases
    case empty
    then show ?thesis by (simp add: checkout_layout_data_def)
  next
    case unparsable
    then show ?thesis by (simp add: checkout_layout_data_def)
  next
    case other
    then show ?thesis by (cases j) (simp_all add: checkout_layout_data_def json_type_def)
  qed
qed

text \<open>
  C7 at the data endpoint. A layout that is not empty and does not parse makes the data
  endpoint raise the decoding error to its caller; the checkout view answers the same
  layout with the empty layout.
\<close>

theorem api_unparsable_layout_raises:
  assumes "raw \<noteq> []" and "loads raw = None"
  shows "api_layout loads raw = Inl JSONDecodeError \<and> checkout_layout_data loads raw = JObj []"
  using assms
  by (simp add: api_layout_def api_seating_plan_data_def and_then_def checkout_layout_data_def)

theorem api_unparsable_layout_raises_witness:
  "''not json'' \<noteq> [] \<and>
   (\<lambda>s. if s = ''{}'' then Some (JObj []) else None) ''not json'' = None \<and>
   api_layout (\<lambda>s. if s = ''{}'' then Some (JObj []) else None) ''not json'' = Inl JSONDecodeError \<and>
   checkout_layout_data (\<lambda>s. if s = ''{}'' then Some (JObj []) else None) ''not json'' = JObj []"
proof -
  let ?loads = "\<lambda>s. if s = ''{}'' then Some (JObj []) else None"
  have a: "''not json'' \<noteq> []" by simp
  have b: "?loads ''not json'' = None" by simp
  from api_unparsable_layout_raises [of "''not json''" ?loads, OF a b] a b show ?thesis by simp
qed

text \<open>A layout that is a JSON number fails in the data endpoint as well, on \<^verbatim>\<open>'zones' in 5\<close>.\<close>

lemma api_number_layout_raises:
  assumes "raw \<noteq> []" and "loads raw = Some (JNum n)"
  shows "api_layout loads raw =
           Inl (TypeError (''argument of type '' @ quoted ''int'' @ '' is not iterable''))"
  using assms
  by (simp add: api_layout_def api_seating_plan_data_def and_then_def find_seat_categories_def
      py_in_def json_type_def)

section \<open>Results on seat status\<close>

lemma api_is_available:
  "api_status P sub M cart c seat =
     (if \<not> is_available_product P sub M c seat then ''unavailable''
      else if a_guid seat \<in> set cart then ''selected''
      else if a_has_order seat \<or> (a_has_cart seat \<and> a_guid seat \<notin> set cart) \<or> a_has_voucher seat
      then ''unavailable''
      else ''available'')"
  by (auto simp: api_status_def is_available_product_def resolved_product_def Let_def
      split: option.splits bool.splits)

text \<open>
  The data endpoint follows the decision order on every seat whose blocked flag is not
  set, and its status is always one of the three.
\<close>

lemma api_status_unblocked:
  "\<not> a_blocked seat \<Longrightarrow>
     api_status P sub M cart c seat =
       status_as_specified (is_available_product P sub M c seat) cart seat"
  by (simp add: api_is_available status_as_specified_def held_by_others_def)

lemma api_status_one_of_three:
  "api_status P sub M cart c seat \<in> set [''available'', ''unavailable'', ''selected'']"
  by (simp add: api_is_available)

text \<open>
  C5 at the three read paths. A seat of the caller's own cart with an available product
  is \<open>selected\<close> by the decision order and at the data endpoint, and \<open>available\<close> at
  the checkout step. A seat with no product is \<open>unavailable\<close> by the decision order and
  at the data endpoint, and \<open>available\<close> at the checkout step. A blocked seat that
  nobody holds is \<open>unavailable\<close> by the decision order and at the checkout view, and
  \<open>available\<close> at the data endpoint and at the checkout step.
\<close>

theorem status_paths_differ_from_decision_order:
  "status_as_specified (is_available_product one_product None Map.empty None own_seat)
     [''S1''] own_seat = ''selected'' \<and>
   api_status one_product None Map.empty [''S1''] None own_seat = ''selected'' \<and>
   checkout_step_status [''S1''] own_seat = ''available'' \<and>
   status_as_specified (is_available_product one_product None Map.empty None unsold_seat)
     [] unsold_seat = ''unavailable'' \<and>
   api_status one_product None Map.empty [] None unsold_seat = ''unavailable'' \<and>
   checkout_step_status [] unsold_seat = ''available'' \<and>
   status_as_specified (is_available_product one_product None Map.empty None blocked_seat)
     [] blocked_seat = ''unavailable'' \<and>
   checkout_view_status [''VIP'' \<mapsto> 1] [] (Some ''VIP'') blocked_seat = ''unavailable'' \<and>
   api_status one_product None Map.empty [] None blocked_seat = ''available'' \<and>
   checkout_step_status [] blocked_seat = ''available''"
  by (simp add: api_is_available is_available_product_def resolved_product_def own_seat_def
      unsold_seat_def blocked_seat_def one_product_def status_as_specified_def
      held_by_others_def checkout_step_status_def checkout_view_status_def)

text \<open>The checkout view reads the blocked flag.\<close>

lemma checkout_view_status_blocked:
  "a_blocked seat \<Longrightarrow> checkout_view_status M cart c seat = ''unavailable''"
  by (simp add: checkout_view_status_def)

end
